theory Spec2Isabelle
  imports Complex_Main
begin

section \<open>How fast are NumPy ops: the notebook as a state transformer\<close>

text \<open>
  The notebook \<^verbatim>\<open>Pandas and Numpy/How fast are NumPy ops.ipynb\<close> is a linear script
  over a handful of global variables. Each code cell is modelled as a function on the
  record of these globals. A Python exception is a value: a cell returns either the
  state it reached, or the exception together with the state at the moment of the raise
  (the globals of a notebook survive a failed cell).

  A Python float is a real number or one of the three IEEE specials. The arithmetic of
  the Data Generator rounds each result to the nearest double, as the interpreter does;
  the two logarithms are library functions and are taken as the exact base-10
  logarithm. \<^verbatim>\<open>time.time()\<close> reads a clock given as a sequence of readings and
  \<^verbatim>\<open>np.random.random\<close> a sequence of draws. Of the printed output the model keeps the
  four lines that report a duration; the lines that preview a list, and the plotting
  cell, change no global and are left out.
\<close>

subsection \<open>Floats, exceptions and the two logarithms\<close>

datatype pyfloat = Fin real | PInf | NInf | NaN

datatype py_error =
    ValueError_math_domain
  | ValueError_negative_dimensions
  | NameError

text \<open>\<^verbatim>\<open>from math import log10 as lg10\<close>: raises \<^verbatim>\<open>ValueError: math domain error\<close> on
  zero, on a negative number and on minus infinity.\<close>

fun lg10 :: "pyfloat \<Rightarrow> py_error + pyfloat" where
  "lg10 (Fin x) = (if 0 < x then Inr (Fin (log 10 x)) else Inl ValueError_math_domain)"
| "lg10 PInf = Inr PInf"
| "lg10 NInf = Inl ValueError_math_domain"
| "lg10 NaN = Inr NaN"

text \<open>The same function applied to a Python \<^verbatim>\<open>int\<close>, as the comprehension does.\<close>

definition lg10_int :: "int \<Rightarrow> py_error + pyfloat" where
  "lg10_int i = (if 0 < i then Inr (Fin (log 10 (of_int i))) else Inl ValueError_math_domain)"

text \<open>\<^verbatim>\<open>np.log10\<close> on one element: no exception; minus infinity at zero and NaN below it
  (NumPy only emits a warning there).\<close>

fun np_log10 :: "pyfloat \<Rightarrow> pyfloat" where
  "np_log10 (Fin x) = (if 0 < x then Fin (log 10 x) else if x = 0 then NInf else NaN)"
| "np_log10 PInf = PInf"
| "np_log10 NInf = NaN"
| "np_log10 NaN = NaN"

text \<open>\<^verbatim>\<open>def op1(x): return (lg10(x))\<close>\<close>

definition op1 :: "pyfloat \<Rightarrow> py_error + pyfloat" where
  "op1 x = lg10 x"

subsection \<open>Double-precision arithmetic\<close>

text \<open>
  A product or a sum of two doubles is the exact result rounded to the nearest double,
  ties to the even significand (IEEE 754 binary64: 53 significant bits, least normal
  exponent -1022, infinity from \<open>2 ^ 1024\<close> on).
\<close>

definition round_half_even :: "real \<Rightarrow> int" where
  "round_half_even y =
     (let f = \<lfloor>y\<rfloor>; d = y - of_int f
      in if d < 1 / 2 then f else if 1 / 2 < d then f + 1 else if even f then f else f + 1)"

definition double_exponent :: "real \<Rightarrow> int" where
  "double_exponent x = max \<lfloor>log 2 \<bar>x\<bar>\<rfloor> (- 1022)"

definition double_ulp :: "real \<Rightarrow> real" where
  "double_ulp x = 2 powr of_int (double_exponent x - 52)"

definition nearest_double :: "real \<Rightarrow> real" where
  "nearest_double x =
     (if x = 0 then 0 else of_int (round_half_even (x / double_ulp x)) * double_ulp x)"

definition round_double :: "real \<Rightarrow> pyfloat" where
  "round_double x =
     (let y = nearest_double x
      in if 2 ^ 1024 \<le> y then PInf else if y \<le> - (2 ^ 1024) then NInf else Fin y)"

definition is_double :: "real \<Rightarrow> bool" where
  "is_double x = (round_double x = Fin x)"

text \<open>\<^verbatim>\<open>100*r+1\<close> on one element \<open>r\<close> of the array of draws: the product is rounded,
  then the sum.\<close>

definition scale_and_shift :: "real \<Rightarrow> pyfloat" where
  "scale_and_shift r =
     (case round_double (100 * r) of Fin y \<Rightarrow> round_double (y + 1) | v \<Rightarrow> v)"

subsection \<open>The globals\<close>

text \<open>
  \<open>N\<close>, \<open>speed\<close>, \<open>l1\<close>, \<open>a1\<close> and \<open>l2\<close> are bound by the start-up cells; the globals
  bound later are \<open>None\<close> until their first assignment. \<open>clock\<close> and \<open>ticks\<close> are the
  wall clock: the readings \<^verbatim>\<open>time.time()\<close> will return, and how many were taken.
  \<open>printed\<close> is the output so far: for each duration line, its format string and the
  number of seconds put into it.
\<close>

record state =
  N :: int
  speed :: "real list"
  l1 :: "pyfloat list"
  a1 :: "pyfloat list"
  l2 :: "pyfloat list"
  a2 :: "pyfloat list option"
  l3 :: "pyfloat list option"
  t1 :: "real option"
  t2 :: "real option"
  item :: "pyfloat option"
  clock :: "nat \<Rightarrow> real"
  ticks :: nat
  printed :: "(string \<times> real) list"

type_synonym outcome = "(py_error \<times> state) + state"

definition time_time :: "state \<Rightarrow> real \<times> state" where
  "time_time s = (clock s (ticks s), s\<lparr>ticks := Suc (ticks s)\<rparr>)"

definition then_run :: "outcome \<Rightarrow> (state \<Rightarrow> outcome) \<Rightarrow> outcome" where
  "then_run r cell = (case r of Inl failure \<Rightarrow> Inl failure | Inr s \<Rightarrow> cell s)"

text \<open>The state a cell ends in, whether it completed or raised.\<close>

definition final_state :: "outcome \<Rightarrow> state" where
  "final_state r = (case r of Inl (e, s) \<Rightarrow> s | Inr s \<Rightarrow> s)"

subsection \<open>Start-up cells\<close>

text \<open>\<^verbatim>\<open>np.random.random(n)\<close>: \<open>n\<close> draws, or \<^verbatim>\<open>ValueError\<close> for a negative size.\<close>

definition np_random_random :: "(nat \<Rightarrow> real) \<Rightarrow> int \<Rightarrow> py_error + real list" where
  "np_random_random rnd n =
     (if n < 0 then Inl ValueError_negative_dimensions else Inr (map rnd [0..<nat n]))"

text \<open>\<^verbatim>\<open>list(100*(np.random.random(N))+1)\<close>\<close>

definition data_generator :: "(nat \<Rightarrow> real) \<Rightarrow> int \<Rightarrow> py_error + pyfloat list" where
  "data_generator rnd n =
     (case np_random_random rnd n of
        Inl e \<Rightarrow> Inl e
      | Inr rs \<Rightarrow> Inr (map scale_and_shift rs))"

text \<open>
  The globals after \<^verbatim>\<open>N = n\<close>, \<^verbatim>\<open>speed = []\<close>, \<^verbatim>\<open>l1 = xs\<close>, \<^verbatim>\<open>a1 = np.array(l1)\<close> and
  \<^verbatim>\<open>l2=[]\<close>.
\<close>

definition state_of :: "(nat \<Rightarrow> real) \<Rightarrow> int \<Rightarrow> pyfloat list \<Rightarrow> state" where
  "state_of clk n xs =
     \<lparr>N = n, speed = [], l1 = xs, a1 = xs, l2 = [], a2 = None, l3 = None,
      t1 = None, t2 = None, item = None, clock = clk, ticks = 0, printed = []\<rparr>"

definition startup :: "(nat \<Rightarrow> real) \<Rightarrow> (nat \<Rightarrow> real) \<Rightarrow> int \<Rightarrow> py_error + state" where
  "startup rnd clk n =
     (case data_generator rnd n of
        Inl e \<Rightarrow> Inl e
      | Inr xs \<Rightarrow> Inr (state_of clk n xs))"

text \<open>\<^verbatim>\<open>l2=[] # Just a blanck list to append to\<close>, as a cell of its own.\<close>

definition reset_l2 :: "state \<Rightarrow> state" where
  "reset_l2 s = s\<lparr>l2 := []\<rparr>"

subsection \<open>The timing harness\<close>

text \<open>
  Every timed cell has the shape
  \<^verbatim>\<open>t1=time.time(); <body>; t2 = time.time(); print(msg.format(t2-t1)); speed.append(t2-t1)\<close>
  with a format string \<open>msg\<close> of its own.
\<close>

definition start_timer :: "state \<Rightarrow> state" where
  "start_timer s = (let (start, s1) = time_time s in s1\<lparr>t1 := Some start\<rparr>)"

definition stop_timer :: "state \<Rightarrow> state" where
  "stop_timer s = (let (stop, s1) = time_time s in s1\<lparr>t2 := Some stop\<rparr>)"

definition report_duration :: "string \<Rightarrow> state \<Rightarrow> outcome" where
  "report_duration msg s =
     (case (t2 s, t1 s) of
        (Some stop, Some start) \<Rightarrow> Inr (s\<lparr>printed := printed s @ [(msg, stop - start)]\<rparr>)
      | _ \<Rightarrow> Inl (NameError, s))"

definition record_duration :: "state \<Rightarrow> outcome" where
  "record_duration s =
     (case (t2 s, t1 s) of
        (Some stop, Some start) \<Rightarrow> Inr (s\<lparr>speed := speed s @ [stop - start]\<rparr>)
      | _ \<Rightarrow> Inl (NameError, s))"

definition timed :: "string \<Rightarrow> (state \<Rightarrow> outcome) \<Rightarrow> state \<Rightarrow> outcome" where
  "timed msg body s =
     (case body (start_timer s) of
        Inl failure \<Rightarrow> Inl failure
      | Inr s' \<Rightarrow> then_run (report_duration msg (stop_timer s')) record_duration)"

subsection \<open>The four strategies\<close>

text \<open>\<^verbatim>\<open>for item in l1: l2.append(lg10(item))\<close>\<close>

fun for_loop :: "pyfloat list \<Rightarrow> state \<Rightarrow> outcome" where
  "for_loop [] s = Inr s"
| "for_loop (x # xs) s =
     (let s' = s\<lparr>item := Some x\<rparr>
      in case lg10 x of
           Inl e \<Rightarrow> Inl (e, s')
         | Inr v \<Rightarrow> for_loop xs (s'\<lparr>l2 := l2 s' @ [v]\<rparr>))"

definition for_loop_body :: "state \<Rightarrow> outcome" where
  "for_loop_body s = for_loop (l1 s) s"

text \<open>A comprehension or \<^verbatim>\<open>list(map(f, xs))\<close>: left to right, the first exception ends it
  and nothing is assigned.\<close>

fun map_raising :: "('a \<Rightarrow> py_error + 'b) \<Rightarrow> 'a list \<Rightarrow> py_error + 'b list" where
  "map_raising f [] = Inr []"
| "map_raising f (x # xs) =
     (case f x of
        Inl e \<Rightarrow> Inl e
      | Inr v \<Rightarrow> (case map_raising f xs of Inl e \<Rightarrow> Inl e | Inr vs \<Rightarrow> Inr (v # vs)))"

text \<open>\<^verbatim>\<open>range(a, b)\<close> for integers, the upper bound excluded.\<close>

definition py_range :: "int \<Rightarrow> int \<Rightarrow> int list" where
  "py_range a b = [a..b - 1]"

text \<open>\<^verbatim>\<open>l2 = [lg10(i) for i in range(1,1000001)]\<close>\<close>

definition comprehension_body :: "state \<Rightarrow> outcome" where
  "comprehension_body s =
     (case map_raising lg10_int (py_range 1 1000001) of
        Inl e \<Rightarrow> Inl (e, s)
      | Inr vs \<Rightarrow> Inr (s\<lparr>l2 := vs\<rparr>))"

text \<open>\<^verbatim>\<open>l2=list(map(op1,l1))\<close>\<close>

definition map_body :: "state \<Rightarrow> outcome" where
  "map_body s =
     (case map_raising op1 (l1 s) of
        Inl e \<Rightarrow> Inl (e, s)
      | Inr vs \<Rightarrow> Inr (s\<lparr>l2 := vs\<rparr>))"

text \<open>\<^verbatim>\<open>a2=np.log10(a1)\<close>\<close>

definition numpy_body :: "state \<Rightarrow> outcome" where
  "numpy_body s = Inr (s\<lparr>a2 := Some (map np_log10 (a1 s))\<rparr>)"

text \<open>The format strings of the four duration lines.\<close>

definition for_loop_message :: string where
  "for_loop_message = ''With for loop and appending it took {} seconds''"

definition comprehension_message :: string where
  "comprehension_message = ''With list comprehension, it took {} seconds''"

definition map_message :: string where
  "map_message = ''With map functional method it took {} seconds''"

definition numpy_message :: string where
  "numpy_message = ''With direct NumPy log10 method it took {} seconds''"

definition for_loop_strategy :: "state \<Rightarrow> outcome" where
  "for_loop_strategy = timed for_loop_message for_loop_body"

definition comprehension_strategy :: "state \<Rightarrow> outcome" where
  "comprehension_strategy = timed comprehension_message comprehension_body"

definition map_strategy :: "state \<Rightarrow> outcome" where
  "map_strategy = timed map_message map_body"

definition numpy_strategy :: "state \<Rightarrow> outcome" where
  "numpy_strategy = timed numpy_message numpy_body"

subsection \<open>The whole script\<close>

text \<open>\<^verbatim>\<open>l3 = list(a2)\<close>, the last cell that assigns a global.\<close>

definition list_a2 :: "state \<Rightarrow> outcome" where
  "list_a2 s = (case a2 s of None \<Rightarrow> Inl (NameError, s) | Some ys \<Rightarrow> Inr (s\<lparr>l3 := Some ys\<rparr>))"

definition timed_cells :: "state \<Rightarrow> outcome" where
  "timed_cells s =
     then_run (then_run (then_run (then_run (for_loop_strategy s)
       comprehension_strategy) map_strategy) numpy_strategy) list_a2"

definition script :: "(nat \<Rightarrow> real) \<Rightarrow> (nat \<Rightarrow> real) \<Rightarrow> py_error + state" where
  "script rnd clk =
     (case startup rnd clk 1000000 of
        Inl e \<Rightarrow> Inl e
      | Inr s \<Rightarrow> (case timed_cells s of Inl (e, s') \<Rightarrow> Inl e | Inr s' \<Rightarrow> Inr s'))"

subsection \<open>Vocabulary of the specification\<close>

text \<open>A strictly positive float, a non-positive one, and the base-10 logarithm as a
  mathematical function on the strictly positive floats.\<close>

fun strictly_positive :: "pyfloat \<Rightarrow> bool" where
  "strictly_positive (Fin x) = (0 < x)"
| "strictly_positive PInf = True"
| "strictly_positive NInf = False"
| "strictly_positive NaN = False"

fun non_positive :: "pyfloat \<Rightarrow> bool" where
  "non_positive (Fin x) = (x \<le> 0)"
| "non_positive PInf = False"
| "non_positive NInf = True"
| "non_positive NaN = False"

fun log10_value :: "pyfloat \<Rightarrow> pyfloat" where
  "log10_value (Fin x) = Fin (log 10 x)"
| "log10_value v = v"

text \<open>A finite float in the half-open interval from \<open>lo\<close> to \<open>hi\<close>.\<close>

definition in_range :: "real \<Rightarrow> real \<Rightarrow> pyfloat \<Rightarrow> bool" where
  "in_range lo hi v = (case v of Fin x \<Rightarrow> lo \<le> x \<and> x < hi | _ \<Rightarrow> False)"

text \<open>The Duration Record of a completed run of the script.\<close>

definition duration_record :: "py_error + state \<Rightarrow> real list option" where
  "duration_record r = (case r of Inl e \<Rightarrow> None | Inr s \<Rightarrow> Some (speed s))"

text \<open>The Result Set a strategy leaves behind, if it completed: \<open>l2\<close> for the three
  list strategies, \<open>a2\<close> for the array one.\<close>

definition l2_result :: "outcome \<Rightarrow> pyfloat list option" where
  "l2_result r = (case r of Inl failure \<Rightarrow> None | Inr s \<Rightarrow> Some (l2 s))"

definition a2_result :: "outcome \<Rightarrow> pyfloat list option" where
  "a2_result r = (case r of Inl failure \<Rightarrow> None | Inr s \<Rightarrow> a2 s)"

definition raised :: "outcome \<Rightarrow> py_error option" where
  "raised r = (case r of Inl (e, s) \<Rightarrow> Some e | Inr s \<Rightarrow> None)"

section \<open>Properties\<close>

subsection \<open>Frame and success lemmas for the bodies\<close>

lemma map_raising_ok:
  "(\<And>x. x \<in> set xs \<Longrightarrow> f x = Inr (g x)) \<Longrightarrow> map_raising f xs = Inr (map g xs)"
  by (induction xs) simp_all

lemma map_raising_length: "map_raising f xs = Inr vs \<Longrightarrow> length vs = length xs"
  by (induction xs arbitrary: vs) (auto split: sum.splits)

lemma lg10_positive: "strictly_positive x \<Longrightarrow> lg10 x = Inr (log10_value x)"
  by (cases x) simp_all

lemma np_log10_positive: "strictly_positive x \<Longrightarrow> np_log10 x = log10_value x"
  by (cases x) simp_all

lemma lg10_non_positive: "non_positive x \<Longrightarrow> lg10 x = Inl ValueError_math_domain"
  by (cases x) simp_all

lemma for_loop_ok:
  "(\<And>x. x \<in> set xs \<Longrightarrow> lg10 x = Inr (g x)) \<Longrightarrow>
   for_loop xs s =
     Inr (s\<lparr>l2 := l2 s @ map g xs, item := (if xs = [] then item s else Some (last xs))\<rparr>)"
proof (induction xs arbitrary: s)
  case Nil
  show ?case by simp
next
  case (Cons x xs)
  have head: "lg10 x = Inr (g x)" using Cons.prems by simp
  have rest: "\<And>y. y \<in> set xs \<Longrightarrow> lg10 y = Inr (g y)" using Cons.prems by simp
  show ?case
    by (simp add: head Cons.IH [OF rest])
qed

lemma lg10_Inr: "lg10 x = Inr v \<Longrightarrow> v = log10_value x"
  by (cases x) (auto split: if_splits)

lemma for_loop_completes:
  "for_loop xs s = Inr s' \<Longrightarrow> x \<in> set xs \<Longrightarrow> lg10 x = Inr (log10_value x)"
proof (induction xs arbitrary: s)
  case Nil
  then show ?case by simp
next
  case (Cons y ys)
  then show ?case
    by (auto simp: Let_def split: sum.splits dest: lg10_Inr)
qed

lemma for_loop_frame:
  "speed (final_state (for_loop xs s)) = speed s \<and>
   l1 (final_state (for_loop xs s)) = l1 s \<and>
   a1 (final_state (for_loop xs s)) = a1 s \<and>
   t1 (final_state (for_loop xs s)) = t1 s \<and>
   t2 (final_state (for_loop xs s)) = t2 s \<and>
   ticks (final_state (for_loop xs s)) = ticks s \<and>
   clock (final_state (for_loop xs s)) = clock s"
proof (induction xs arbitrary: s)
  case Nil
  show ?case by (simp add: final_state_def)
next
  case (Cons y ys)
  show ?case
  proof (cases "lg10 y")
    case (Inl e)
    then show ?thesis by (simp add: final_state_def)
  next
    case (Inr v)
    then show ?thesis by (simp add: Cons.IH)
  qed
qed

lemma start_timer_simp:
  "start_timer s = s\<lparr>ticks := Suc (ticks s), t1 := Some (clock s (ticks s))\<rparr>"
  by (simp add: start_timer_def time_time_def)

lemma stop_timer_simp:
  "stop_timer s = s\<lparr>ticks := Suc (ticks s), t2 := Some (clock s (ticks s))\<rparr>"
  by (simp add: stop_timer_def time_time_def)

lemma timed_completes:
  "body (start_timer s) = Inr s' \<Longrightarrow> t1 s' = Some a \<Longrightarrow>
   timed msg body s =
     Inr (s'\<lparr>ticks := Suc (ticks s'), t2 := Some (clock s' (ticks s')),
            printed := printed s' @ [(msg, clock s' (ticks s') - a)],
            speed := speed s' @ [clock s' (ticks s') - a]\<rparr>)"
  by (simp add: timed_def report_duration_def record_duration_def then_run_def
      stop_timer_simp)

lemma timed_raises:
  "body (start_timer s) = Inl failure \<Longrightarrow> timed msg body s = Inl failure"
  by (simp add: timed_def)

lemma for_loop_strategy_ok:
  assumes "\<And>x. x \<in> set (l1 s) \<Longrightarrow> lg10 x = Inr (log10_value x)"
  shows "for_loop_strategy s =
     Inr (s\<lparr>ticks := Suc (Suc (ticks s)),
            t1 := Some (clock s (ticks s)),
            t2 := Some (clock s (Suc (ticks s))),
            l2 := l2 s @ map log10_value (l1 s),
            item := (if l1 s = [] then item s else Some (last (l1 s))),
            printed := printed s @
              [(for_loop_message, clock s (Suc (ticks s)) - clock s (ticks s))],
            speed := speed s @ [clock s (Suc (ticks s)) - clock s (ticks s)]\<rparr>)"
proof -
  have body: "for_loop_body (start_timer s) =
      Inr ((start_timer s)\<lparr>l2 := l2 s @ map log10_value (l1 s),
            item := (if l1 s = [] then item s else Some (last (l1 s)))\<rparr>)"
    unfolding for_loop_body_def using assms
    by (subst for_loop_ok [where g = log10_value]) (simp_all add: start_timer_simp)
  show ?thesis
    unfolding for_loop_strategy_def
    using timed_completes
      [where body = for_loop_body and s = s and msg = for_loop_message, OF body]
    by (simp add: start_timer_simp)
qed

lemma comprehension_values:
  "map_raising lg10_int (py_range 1 1000001) =
     Inr (map (\<lambda>i. Fin (log 10 (of_int i))) [1..1000000])"
proof -
  have "map_raising lg10_int [1..1000000] =
     Inr (map (\<lambda>i. Fin (log 10 (of_int i))) [1..1000000])"
    by (rule map_raising_ok) (simp add: lg10_int_def)
  then show ?thesis by (simp add: py_range_def)
qed

lemma comprehension_strategy_ok:
  "comprehension_strategy s =
     Inr (s\<lparr>ticks := Suc (Suc (ticks s)),
            t1 := Some (clock s (ticks s)),
            t2 := Some (clock s (Suc (ticks s))),
            l2 := map (\<lambda>i. Fin (log 10 (of_int i))) [1..1000000],
            printed := printed s @
              [(comprehension_message, clock s (Suc (ticks s)) - clock s (ticks s))],
            speed := speed s @ [clock s (Suc (ticks s)) - clock s (ticks s)]\<rparr>)"
proof -
  have body: "comprehension_body (start_timer s) =
      Inr ((start_timer s)\<lparr>l2 := map (\<lambda>i. Fin (log 10 (of_int i))) [1..1000000]\<rparr>)"
    by (simp add: comprehension_body_def comprehension_values)
  show ?thesis
    unfolding comprehension_strategy_def
    using timed_completes
      [where body = comprehension_body and s = s and msg = comprehension_message, OF body]
    by (simp add: start_timer_simp)
qed

lemma map_strategy_ok:
  assumes "\<And>x. x \<in> set (l1 s) \<Longrightarrow> lg10 x = Inr (log10_value x)"
  shows "map_strategy s =
     Inr (s\<lparr>ticks := Suc (Suc (ticks s)),
            t1 := Some (clock s (ticks s)),
            t2 := Some (clock s (Suc (ticks s))),
            l2 := map log10_value (l1 s),
            printed := printed s @
              [(map_message, clock s (Suc (ticks s)) - clock s (ticks s))],
            speed := speed s @ [clock s (Suc (ticks s)) - clock s (ticks s)]\<rparr>)"
proof -
  have "map_raising op1 (l1 s) = Inr (map log10_value (l1 s))"
    by (rule map_raising_ok) (simp add: op1_def assms)
  then have body: "map_body (start_timer s) =
      Inr ((start_timer s)\<lparr>l2 := map log10_value (l1 s)\<rparr>)"
    by (simp add: map_body_def start_timer_simp)
  show ?thesis
    unfolding map_strategy_def
    using timed_completes
      [where body = map_body and s = s and msg = map_message, OF body]
    by (simp add: start_timer_simp)
qed

lemma numpy_strategy_ok:
  "numpy_strategy s =
     Inr (s\<lparr>ticks := Suc (Suc (ticks s)),
            t1 := Some (clock s (ticks s)),
            t2 := Some (clock s (Suc (ticks s))),
            a2 := Some (map np_log10 (a1 s)),
            printed := printed s @
              [(numpy_message, clock s (Suc (ticks s)) - clock s (ticks s))],
            speed := speed s @ [clock s (Suc (ticks s)) - clock s (ticks s)]\<rparr>)"
proof -
  have body: "numpy_body (start_timer s) =
      Inr ((start_timer s)\<lparr>a2 := Some (map np_log10 (a1 s))\<rparr>)"
    by (simp add: numpy_body_def start_timer_simp)
  show ?thesis
    unfolding numpy_strategy_def
    using timed_completes
      [where body = numpy_body and s = s and msg = numpy_message, OF body]
    by (simp add: start_timer_simp)
qed

subsection \<open>The explicit loop appends\<close>

text \<open>
  C10. The explicit-iteration strategy appends to the list \<open>l2\<close> it finds: when it
  completes, \<open>l2\<close> is its prior contents followed by the base-10 logarithm of each
  element of \<open>l1\<close> in order, and it is exactly the mapped Sample Set if and only if
  \<open>l2\<close> was empty beforehand.
\<close>

theorem for_loop_appends_to_l2:
  assumes "for_loop_strategy s = Inr s'"
  shows "l2 s' = l2 s @ map log10_value (l1 s) \<and>
         (l2 s' = map log10_value (l1 s) \<longleftrightarrow> l2 s = [])"
proof -
  have "for_loop_body (start_timer s) \<noteq> Inl failure" for failure
    using assms by (auto simp: for_loop_strategy_def timed_def)
  then obtain s1 where "for_loop (l1 s) (start_timer s) = Inr s1"
    unfolding for_loop_body_def start_timer_simp
    by (cases "for_loop (l1 s) (start_timer s)") (auto simp: start_timer_simp)
  then have "\<And>x. x \<in> set (l1 s) \<Longrightarrow> lg10 x = Inr (log10_value x)"
    by (rule for_loop_completes)
  then have "for_loop_strategy s = Inr (s\<lparr>ticks := Suc (Suc (ticks s)),
            t1 := Some (clock s (ticks s)),
            t2 := Some (clock s (Suc (ticks s))),
            l2 := l2 s @ map log10_value (l1 s),
            item := (if l1 s = [] then item s else Some (last (l1 s))),
            printed := printed s @
              [(for_loop_message, clock s (Suc (ticks s)) - clock s (ticks s))],
            speed := speed s @ [clock s (Suc (ticks s)) - clock s (ticks s)]\<rparr>)"
    by (rule for_loop_strategy_ok)
  with assms have "l2 s' = l2 s @ map log10_value (l1 s)"
    by auto
  then show ?thesis by simp
qed

theorem for_loop_appends_to_l2_witness:
  "for_loop_strategy (state_of real 2 [Fin 1, Fin 10] \<lparr>l2 := [Fin 7]\<rparr>) =
     Inr \<lparr>N = 2, speed = [1], l1 = [Fin 1, Fin 10], a1 = [Fin 1, Fin 10],
          l2 = [Fin 7, Fin 0, Fin 1], a2 = None, l3 = None, t1 = Some 0, t2 = Some 1,
          item = Some (Fin 10), clock = real, ticks = 2,
          printed = [(for_loop_message, 1)]\<rparr>
   \<and> [Fin 7, Fin 0, Fin 1] = [Fin 7] @ map log10_value [Fin 1, Fin 10]
   \<and> ([Fin 7, Fin 0, Fin 1] = map log10_value [Fin 1, Fin 10] \<longleftrightarrow> [Fin 7] = ([] :: pyfloat list))"
proof -
  have run: "for_loop_strategy (state_of real 2 [Fin 1, Fin 10] \<lparr>l2 := [Fin 7]\<rparr>) =
     Inr \<lparr>N = 2, speed = [1], l1 = [Fin 1, Fin 10], a1 = [Fin 1, Fin 10],
          l2 = [Fin 7, Fin 0, Fin 1], a2 = None, l3 = None, t1 = Some 0, t2 = Some 1,
          item = Some (Fin 10), clock = real, ticks = 2,
          printed = [(for_loop_message, 1)]\<rparr>"
    by (simp add: for_loop_strategy_def timed_def for_loop_body_def start_timer_simp
        stop_timer_simp report_duration_def record_duration_def then_run_def state_of_def)
  show ?thesis
    using for_loop_appends_to_l2 [OF run] run by simp
qed

lemma map_raising_frame:
  "speed (final_state (case map_raising f xs of Inl e \<Rightarrow> Inl (e, s) | Inr vs \<Rightarrow> Inr (s\<lparr>l2 := vs\<rparr>))) = speed s \<and>
   l1 (final_state (case map_raising f xs of Inl e \<Rightarrow> Inl (e, s) | Inr vs \<Rightarrow> Inr (s\<lparr>l2 := vs\<rparr>))) = l1 s \<and>
   t1 (final_state (case map_raising f xs of Inl e \<Rightarrow> Inl (e, s) | Inr vs \<Rightarrow> Inr (s\<lparr>l2 := vs\<rparr>))) = t1 s \<and>
   t2 (final_state (case map_raising f xs of Inl e \<Rightarrow> Inl (e, s) | Inr vs \<Rightarrow> Inr (s\<lparr>l2 := vs\<rparr>))) = t2 s \<and>
   ticks (final_state (case map_raising f xs of Inl e \<Rightarrow> Inl (e, s) | Inr vs \<Rightarrow> Inr (s\<lparr>l2 := vs\<rparr>))) = ticks s"
  by (cases "map_raising f xs") (simp_all add: final_state_def)

lemma body_frame:
  assumes "body \<in> {for_loop_body, comprehension_body, map_body, numpy_body}"
  shows "speed (final_state (body s)) = speed s \<and> l1 (final_state (body s)) = l1 s \<and>
         t1 (final_state (body s)) = t1 s \<and> t2 (final_state (body s)) = t2 s \<and>
         ticks (final_state (body s)) = ticks s"
proof -
  consider "body = for_loop_body" | "body = comprehension_body" | "body = map_body"
    | "body = numpy_body"
    using assms by blast
  then show ?thesis
  proof cases
    case 1
    then show ?thesis by (simp add: for_loop_body_def for_loop_frame)
  next
    case 2
    then show ?thesis
      by (simp add: comprehension_body_def map_raising_frame)
  next
    case 3
    then show ?thesis
      by (simp add: map_body_def map_raising_frame)
  next
    case 4
    then show ?thesis by (simp add: numpy_body_def final_state_def)
  qed
qed

lemma timed_l1:
  assumes "body \<in> {for_loop_body, comprehension_body, map_body, numpy_body}"
  shows "l1 (final_state (timed msg body s)) = l1 s"
proof (cases "body (start_timer s)")
  case (Inl failure)
  then have "final_state (timed msg body s) = final_state (body (start_timer s))"
    by (simp add: timed_def)
  then show ?thesis
    using body_frame [OF assms, of "start_timer s"] by (simp add: start_timer_simp)
next
  case (Inr s')
  have "l1 s' = l1 s"
    using body_frame [OF assms, of "start_timer s"] Inr
    by (simp add: start_timer_simp final_state_def)
  moreover have "l1 (final_state (timed msg body s)) = l1 s'"
    using Inr
    by (simp add: timed_def report_duration_def record_duration_def then_run_def
        stop_timer_simp final_state_def split: option.splits)
  ultimately show ?thesis by simp
qed

lemma then_run_l1:
  "(\<And>s. l1 (final_state (cell s)) = l1 s) \<Longrightarrow>
   l1 (final_state (then_run r cell)) = l1 (final_state r)"
  by (cases r) (auto simp: then_run_def final_state_def)

lemma list_a2_l1: "l1 (final_state (list_a2 s)) = l1 s"
  by (simp add: list_a2_def final_state_def split: option.splits)

subsection \<open>The Sample Set is only read\<close>

text \<open>
  C8. The Sample Set \<open>l1\<close> is bound once, by the start-up cell, and never changed
  afterwards: each of the four strategies, and the whole sequence of cells after
  start-up, ends (normally or by an exception) in a state whose \<open>l1\<close> is the one it
  started with.
\<close>

theorem sample_set_never_mutated:
  "l1 (final_state (for_loop_strategy s)) = l1 s \<and>
   l1 (final_state (comprehension_strategy s)) = l1 s \<and>
   l1 (final_state (map_strategy s)) = l1 s \<and>
   l1 (final_state (numpy_strategy s)) = l1 s \<and>
   l1 (final_state (timed_cells s)) = l1 s"
proof -
  have f: "l1 (final_state (for_loop_strategy s)) = l1 s" for s
    unfolding for_loop_strategy_def by (rule timed_l1) simp
  have c: "l1 (final_state (comprehension_strategy s)) = l1 s" for s
    unfolding comprehension_strategy_def by (rule timed_l1) simp
  have m: "l1 (final_state (map_strategy s)) = l1 s" for s
    unfolding map_strategy_def by (rule timed_l1) simp
  have n: "l1 (final_state (numpy_strategy s)) = l1 s" for s
    unfolding numpy_strategy_def by (rule timed_l1) simp
  have "l1 (final_state (timed_cells s)) = l1 s"
    unfolding timed_cells_def
    by (simp add: then_run_l1 [where cell = list_a2, OF list_a2_l1]
        then_run_l1 [where cell = numpy_strategy, OF n]
        then_run_l1 [where cell = map_strategy, OF m]
        then_run_l1 [where cell = comprehension_strategy, OF c] f)
  with f c m n show ?thesis by simp
qed

subsection \<open>The harness passes exceptions on\<close>

text \<open>
  C9. When the computation wrapped by the timing harness raises, the harness neither
  retries nor suppresses: the timed cell fails with the same exception in the same
  state, and in that state no duration has been appended to \<open>speed\<close>; only the start
  timestamp was taken, the end timestamp \<open>t2\<close> was not.
\<close>

theorem harness_propagates_failure:
  assumes "body \<in> {for_loop_body, comprehension_body, map_body, numpy_body}"
    and "body (start_timer s) = Inl (e, s')"
  shows "timed msg body s = Inl (e, s') \<and> speed s' = speed s \<and>
         ticks s' = Suc (ticks s) \<and> t2 s' = t2 s"
proof -
  have "timed msg body s = Inl (e, s')"
    using assms(2) by (rule timed_raises)
  moreover have "final_state (body (start_timer s)) = s'"
    using assms(2) by (simp add: final_state_def)
  then have "speed s' = speed s \<and> ticks s' = Suc (ticks s) \<and> t2 s' = t2 s"
    using body_frame [OF assms(1), of "start_timer s"] by (simp add: start_timer_simp)
  ultimately show ?thesis by simp
qed

theorem harness_propagates_failure_witness:
  "timed for_loop_message for_loop_body (state_of real 1 [Fin 0]) =
     Inl (ValueError_math_domain,
          \<lparr>N = 1, speed = [], l1 = [Fin 0], a1 = [Fin 0], l2 = [], a2 = None, l3 = None,
           t1 = Some 0, t2 = None, item = Some (Fin 0), clock = real, ticks = 1,
           printed = []\<rparr>)"
proof -
  have "for_loop_body \<in> {for_loop_body, comprehension_body, map_body, numpy_body}"
    by simp
  moreover have "for_loop_body (start_timer (state_of real 1 [Fin 0])) =
     Inl (ValueError_math_domain,
          \<lparr>N = 1, speed = [], l1 = [Fin 0], a1 = [Fin 0], l2 = [], a2 = None, l3 = None,
           t1 = Some 0, t2 = None, item = Some (Fin 0), clock = real, ticks = 1,
           printed = []\<rparr>)"
    by (simp add: for_loop_body_def start_timer_simp state_of_def)
  ultimately show ?thesis
    using harness_propagates_failure by blast
qed

subsection \<open>The comprehension runs over a fixed range\<close>

text \<open>
  C2. The list-comprehension strategy computes the logarithms of the integers
  1, ..., 1000000 and not of the Sample Set: whatever the globals are, it completes with
  \<open>l2\<close> equal to the list of log10(1), ..., log10(1000000), so any two runs, on any
  two Sample Sets, give the same Result Set.
\<close>

theorem comprehension_ignores_sample_set:
  "l2_result (comprehension_strategy s) =
     Some (map (\<lambda>i. Fin (log 10 (of_int i))) [1..1000000]) \<and>
   l2_result (comprehension_strategy s) = l2_result (comprehension_strategy s')"
  by (simp add: comprehension_strategy_ok l2_result_def)

subsection \<open>Rounding to the nearest double\<close>

lemma round_half_even_le: "y < of_int k + 1 / 2 \<Longrightarrow> round_half_even y \<le> k"
  unfolding round_half_even_def Let_def by (auto split: if_splits) linarith+

lemma round_half_even_ge: "of_int k - 1 / 2 < y \<Longrightarrow> k \<le> round_half_even y"
  unfolding round_half_even_def Let_def by (auto split: if_splits) linarith+

lemma round_half_even_int: "round_half_even (of_int k) = k"
  by (simp add: round_half_even_def)

lemma double_ulp_pos: "0 < double_ulp x"
  by (simp add: double_ulp_def)

lemma binade:
  assumes "0 < x"
  shows "2 powr of_int \<lfloor>log 2 x\<rfloor> \<le> x" and "x < 2 powr of_int (\<lfloor>log 2 x\<rfloor> + 1)"
  using floor_log_eq_powr_iff [of x 2 "\<lfloor>log 2 x\<rfloor>"] assms by simp_all


lemma double_exponent_le:
  assumes "0 < x" and "x < (2::real) powr of_int (k + 1)" and "- 1022 \<le> k"
  shows "double_exponent x \<le> k"
proof -
  have "log 2 x < of_int (k + 1)"
    using assms(1,2) by (simp add: log_less_iff)
  then have "\<lfloor>log 2 x\<rfloor> < k + 1" by linarith
  then show ?thesis using assms(1,3) by (simp add: double_exponent_def)
qed

lemma double_exponent_eq:
  assumes "(2::real) powr of_int k \<le> x" and "x < (2::real) powr of_int (k + 1)" and "- 1022 \<le> k"
  shows "double_exponent x = k"
proof -
  have pos: "0 < x" using assms(1) by (smt (verit) powr_gt_zero)
  have "\<lfloor>log 2 x\<rfloor> = k"
    using floor_log_eq_powr_iff [of x 2 k] pos assms(1,2) by simp
  then show ?thesis using pos assms(3) by (simp add: double_exponent_def)
qed

lemma ulp_times_2_53: "2 ^ 53 * double_ulp x = (2::real) powr of_int (double_exponent x + 1)"
proof -
  have "real_of_int (double_exponent x + 1) = real_of_int (double_exponent x - 52) + 53"
    by simp
  then have "(2::real) powr of_int (double_exponent x + 1) =
        (2::real) powr (of_int (double_exponent x - 52) + 53)"
    by (simp only:)
  also have "\<dots> = (2::real) powr of_int (double_exponent x - 52) * (2::real) powr 53"
    by (rule powr_add)
  finally show ?thesis by (simp add: double_ulp_def)
qed

lemma ulp_times_2_52: "2 ^ 52 * double_ulp x = (2::real) powr of_int (double_exponent x)"
proof -
  have "real_of_int (double_exponent x) = real_of_int (double_exponent x - 52) + 52"
    by simp
  then have "(2::real) powr of_int (double_exponent x) =
        (2::real) powr (of_int (double_exponent x - 52) + 52)"
    by (simp only:)
  also have "\<dots> = (2::real) powr of_int (double_exponent x - 52) * (2::real) powr 52"
    by (rule powr_add)
  finally show ?thesis by (simp add: double_ulp_def)
qed

lemma nearest_double_le_grid:
  assumes "x \<noteq> 0" and "x < (of_int k + 1 / 2) * double_ulp x"
  shows "nearest_double x \<le> of_int k * double_ulp x"
proof -
  have "x / double_ulp x < of_int k + 1 / 2"
    using assms(2) double_ulp_pos [of x] by (simp add: pos_divide_less_eq)
  then have "round_half_even (x / double_ulp x) \<le> k"
    by (rule round_half_even_le)
  then have "of_int (round_half_even (x / double_ulp x)) * double_ulp x \<le> of_int k * double_ulp x"
    using double_ulp_pos [of x] by (simp add: mult_right_mono)
  then show ?thesis using assms(1) by (simp add: nearest_double_def)
qed

lemma nearest_double_ge_grid:
  assumes "x \<noteq> 0" and "(of_int k - 1 / 2) * double_ulp x < x"
  shows "of_int k * double_ulp x \<le> nearest_double x"
proof -
  have "of_int k - 1 / 2 < x / double_ulp x"
    using assms(2) double_ulp_pos [of x] by (simp add: pos_less_divide_eq)
  then have "k \<le> round_half_even (x / double_ulp x)"
    by (rule round_half_even_ge)
  then have "of_int k * double_ulp x \<le> of_int (round_half_even (x / double_ulp x)) * double_ulp x"
    using double_ulp_pos [of x] by (simp add: mult_right_mono)
  then show ?thesis using assms(1) by (simp add: nearest_double_def)
qed

lemma nearest_double_nonneg: "0 \<le> x \<Longrightarrow> 0 \<le> nearest_double x"
proof (cases "x = 0")
  case True
  then show ?thesis by (simp add: nearest_double_def)
next
  case False
  assume "0 \<le> x"
  then have "(of_int 0 - 1 / 2) * double_ulp x < x"
    using double_ulp_pos [of x] False by (simp add: mult_less_0_iff less_le_trans)
  then have "of_int 0 * double_ulp x \<le> nearest_double x"
    using False by (rule nearest_double_ge_grid [rotated])
  then show ?thesis by simp
qed

lemma nearest_double_le_binade:
  assumes "0 < x" and "x < (2::real) powr of_int (k + 1)" and "- 1022 \<le> k"
  shows "nearest_double x \<le> (2::real) powr of_int (k + 1)"
proof -
  have e: "double_exponent x \<le> k" using assms by (rule double_exponent_le)
  have "0 < log 2 x - of_int \<lfloor>log 2 x\<rfloor> + 1" by linarith
  have "\<lfloor>log 2 x\<rfloor> \<le> double_exponent x"
    using assms(1) by (simp add: double_exponent_def)
  then have "(2::real) powr of_int (\<lfloor>log 2 x\<rfloor> + 1) \<le> (2::real) powr of_int (double_exponent x + 1)"
    by (simp add: powr_mono)
  then have "x < (2::real) powr of_int (double_exponent x + 1)"
    using binade(2) [OF assms(1)] by linarith
  then have "x < (of_int (2 ^ 53) + 1 / 2) * double_ulp x"
    using ulp_times_2_53 [of x] double_ulp_pos [of x] by (simp add: algebra_simps)
  then have "nearest_double x \<le> of_int (2 ^ 53) * double_ulp x"
    using assms(1) by (intro nearest_double_le_grid) simp_all
  also have "\<dots> = (2::real) powr of_int (double_exponent x + 1)"
    using ulp_times_2_53 [of x] by simp
  also have "\<dots> \<le> (2::real) powr of_int (k + 1)"
    using e by (simp add: powr_mono)
  finally show ?thesis .
qed

lemma nearest_double_ge_binade:
  assumes "(2::real) powr of_int k \<le> x" and "- 1022 \<le> k"
  shows "(2::real) powr of_int k \<le> nearest_double x"
proof -
  have pos: "0 < x" using assms(1) by (smt (verit) powr_gt_zero)
  have "log 2 x \<ge> of_int k" using assms(1) pos by (simp add: le_log_iff)
  then have "k \<le> \<lfloor>log 2 x\<rfloor>" by linarith
  then have ke: "k \<le> double_exponent x"
    using pos by (simp add: double_exponent_def)
  have "double_exponent x = \<lfloor>log 2 x\<rfloor>"
    using \<open>k \<le> \<lfloor>log 2 x\<rfloor>\<close> assms(2) pos by (simp add: double_exponent_def)
  then have "(2::real) powr of_int (double_exponent x) \<le> x"
    using binade(1) [OF pos] by simp
  then have "of_int (2 ^ 52) * double_ulp x \<le> x"
    using ulp_times_2_52 [of x] by simp
  then have "(of_int (2 ^ 52) - 1 / 2) * double_ulp x < x"
    using double_ulp_pos [of x] by (simp add: algebra_simps)
  then have "of_int (2 ^ 52) * double_ulp x \<le> nearest_double x"
    using pos by (intro nearest_double_ge_grid) simp_all
  then have "(2::real) powr of_int (double_exponent x) \<le> nearest_double x"
    using ulp_times_2_52 [of x] by simp
  moreover have "(2::real) powr of_int k \<le> (2::real) powr of_int (double_exponent x)"
    using ke by (simp add: powr_mono)
  ultimately show ?thesis by linarith
qed


lemma ulp_binade_6:
  assumes "64 \<le> x" and "x < 128"
  shows "double_ulp x = 1 / 2 ^ 46"
proof -
  have "double_exponent x = 6"
    using assms by (intro double_exponent_eq) simp_all
  then have "double_ulp x = (2::real) powr (- 46)"
    by (simp add: double_ulp_def)
  also have "\<dots> = 1 / 2 ^ 46"
    by (simp add: powr_minus inverse_eq_divide)
  finally show ?thesis .
qed

lemma nearest_double_below_64:
  assumes "0 < x" and "x < 64"
  shows "nearest_double x \<le> 64"
proof -
  have "x < (2::real) powr of_int (5 + 1)" using assms(2) by simp
  then have "nearest_double x \<le> (2::real) powr of_int (5 + 1)"
    using assms(1) by (intro nearest_double_le_binade) simp_all
  then show ?thesis by simp
qed

lemma nearest_double_scaled:
  assumes "0 \<le> y" and "y \<le> 100 - 100 / 2 ^ 53"
  shows "0 \<le> nearest_double y \<and> nearest_double y \<le> 100 - 1 / 2 ^ 46"
proof -
  have lower: "0 \<le> nearest_double y" using assms(1) by (rule nearest_double_nonneg)
  have upper: "nearest_double y \<le> 100 - 1 / 2 ^ 46"
  proof (cases "y < 64")
    case True
    show ?thesis
    proof (cases "y = 0")
      case True
      then show ?thesis by (simp add: nearest_double_def)
    next
      case False
      then have "0 < y" using assms(1) by simp
      then have "nearest_double y \<le> 64" using True by (rule nearest_double_below_64)
      then show ?thesis by simp
    qed
  next
    case False
    then have ge: "64 \<le> y" by simp
    have lt: "y < 128" using assms(2) by simp
    have u: "double_ulp y = 1 / 2 ^ 46" using ge lt by (rule ulp_binade_6)
    have "y < (of_int (100 * 2 ^ 46 - 1) + 1 / 2) * double_ulp y"
      using assms(2) by (simp add: u)
    then have "nearest_double y \<le> of_int (100 * 2 ^ 46 - 1) * double_ulp y"
      using ge by (intro nearest_double_le_grid) simp_all
    then show ?thesis by (simp add: u)
  qed
  from lower upper show ?thesis by simp
qed

lemma nearest_double_shifted:
  assumes "1 \<le> z" and "z \<le> 101 - 1 / 2 ^ 46"
  shows "1 \<le> nearest_double z \<and> nearest_double z \<le> 101 - 1 / 2 ^ 46"
proof -
  have "(2::real) powr of_int 0 \<le> z" using assms(1) by simp
  then have "(2::real) powr of_int 0 \<le> nearest_double z"
    by (rule nearest_double_ge_binade) simp
  then have lower: "1 \<le> nearest_double z" by simp
  have upper: "nearest_double z \<le> 101 - 1 / 2 ^ 46"
  proof (cases "z < 64")
    case True
    have "0 < z" using assms(1) by simp
    then have "nearest_double z \<le> 64" using True by (rule nearest_double_below_64)
    then show ?thesis by simp
  next
    case False
    then have ge: "64 \<le> z" by simp
    have lt: "z < 128" using assms(2) by simp
    have u: "double_ulp z = 1 / 2 ^ 46" using ge lt by (rule ulp_binade_6)
    have "z < (of_int (101 * 2 ^ 46 - 1) + 1 / 2) * double_ulp z"
      using assms(2) by (simp add: u)
    then have "nearest_double z \<le> of_int (101 * 2 ^ 46 - 1) * double_ulp z"
      using ge by (intro nearest_double_le_grid) simp_all
    then show ?thesis by (simp add: u)
  qed
  from lower upper show ?thesis by simp
qed

lemma round_double_small:
  assumes "0 \<le> nearest_double x" and "nearest_double x \<le> 128"
  shows "round_double x = Fin (nearest_double x)"
proof -
  define B :: real where "B = 2 ^ 1024"
  have "(2::real) ^ 7 < 2 ^ 1024" by (rule power_strict_increasing) simp_all
  then have big: "128 < B" by (simp add: B_def)
  have a: "\<not> B \<le> nearest_double x" using assms(2) big by linarith
  have b: "\<not> nearest_double x \<le> - B" using assms(1) big by linarith
  have "round_double x =
      (if B \<le> nearest_double x then PInf
       else if nearest_double x \<le> - B then NInf else Fin (nearest_double x))"
    by (simp only: round_double_def Let_def B_def)
  then show ?thesis by (simp only: a b if_False)
qed

lemma double_below_one:
  assumes "is_double r" and "0 \<le> r" and "r < 1"
  shows "r \<le> 1 - 1 / 2 ^ 53"
proof (cases "r = 0")
  case True
  then show ?thesis by simp
next
  case False
  then have pos: "0 < r" using assms(2) by simp
  have stays: "nearest_double r = r"
    using assms(1) unfolding is_double_def round_double_def Let_def
    by (auto split: if_splits)
  define K where "K = round_half_even (r / double_ulp r)"
  have rK: "r = of_int K * double_ulp r"
    using stays False by (simp add: nearest_double_def K_def)
  have "r < (2::real) powr of_int (- 1 + 1)" using assms(3) by simp
  then have e: "double_exponent r \<le> - 1"
    using pos by (intro double_exponent_le) simp_all
  have "\<lfloor>log 2 r\<rfloor> \<le> double_exponent r"
    using pos by (simp add: double_exponent_def)
  then have "(2::real) powr of_int (\<lfloor>log 2 r\<rfloor> + 1) \<le> 2 powr of_int (double_exponent r + 1)"
    by (simp add: powr_mono)
  then have "r < 2 powr of_int (double_exponent r + 1)"
    using binade(2) [OF pos] by linarith
  then have "of_int K * double_ulp r < 2 ^ 53 * double_ulp r"
    using rK ulp_times_2_53 [of r] by simp
  then have "real_of_int K < 2 ^ 53"
    using double_ulp_pos [of r] by simp
  then have "real_of_int K < real_of_int (2 ^ 53)" by simp
  then have "K < 2 ^ 53" by (simp only: of_int_less_iff)
  then have "K \<le> 2 ^ 53 - 1" by simp
  then have "real_of_int K \<le> real_of_int (2 ^ 53 - 1)" by (simp only: of_int_le_iff)
  then have Kle: "real_of_int K \<le> 2 ^ 53 - 1" by simp
  have "double_ulp r \<le> (2::real) powr (- 53)"
    unfolding double_ulp_def using e by (intro powr_mono) simp_all
  also have "\<dots> = 1 / 2 ^ 53" by (simp add: powr_minus inverse_eq_divide)
  finally have u: "double_ulp r \<le> 1 / 2 ^ 53" .
  have "real_of_int K * double_ulp r \<le> (2 ^ 53 - 1) * double_ulp r"
    using Kle double_ulp_pos [of r] by (intro mult_right_mono) simp_all
  then have "r \<le> (2 ^ 53 - 1) * double_ulp r"
    using rK by simp
  also have "\<dots> \<le> (2 ^ 53 - 1) * (1 / 2 ^ 53)"
    using u by (intro mult_left_mono) simp_all
  also have "\<dots> = 1 - 1 / 2 ^ 53" by (simp add: field_simps)
  finally show ?thesis .
qed

lemma scale_and_shift_in_range:
  assumes "is_double r" and "0 \<le> r" and "r < 1"
  shows "in_range 1 101 (scale_and_shift r)"
proof -
  have "r \<le> 1 - 1 / 2 ^ 53" using assms by (rule double_below_one)
  then have "100 * r \<le> 100 - 100 / 2 ^ 53" by simp
  moreover have "0 \<le> 100 * r" using assms(2) by simp
  ultimately have y: "0 \<le> nearest_double (100 * r)"
      "nearest_double (100 * r) \<le> 100 - 1 / 2 ^ 46"
    using nearest_double_scaled [of "100 * r"] by simp_all
  then have ry: "round_double (100 * r) = Fin (nearest_double (100 * r))"
    by (intro round_double_small) simp_all
  have z: "1 \<le> nearest_double (nearest_double (100 * r) + 1)"
      "nearest_double (nearest_double (100 * r) + 1) \<le> 101 - 1 / 2 ^ 46"
    using nearest_double_shifted [of "nearest_double (100 * r) + 1"] y by simp_all
  then have rz: "round_double (nearest_double (100 * r) + 1) =
      Fin (nearest_double (nearest_double (100 * r) + 1))"
    by (intro round_double_small) simp_all
  have "scale_and_shift r = Fin (nearest_double (nearest_double (100 * r) + 1))"
    by (simp add: scale_and_shift_def ry rz)
  moreover have "nearest_double (nearest_double (100 * r) + 1) < 101"
    using z(2) by (smt (verit) divide_pos_pos zero_less_numeral zero_less_power zero_less_one)
  ultimately show ?thesis using z(1) by (simp add: in_range_def)
qed


lemma nearest_double_on_grid:
  assumes "x \<noteq> 0" and "x = of_int k * double_ulp x"
  shows "nearest_double x = x"
proof -
  have "x / double_ulp x = of_int k"
    using assms(2) double_ulp_pos [of x] by (simp add: nonzero_divide_eq_eq)
  then have "round_half_even (x / double_ulp x) = k"
    by (simp only: round_half_even_int)
  then show ?thesis using assms by (simp add: nearest_double_def)
qed

lemma nearest_double_near_grid:
  assumes "x \<noteq> 0" and "(of_int k - 1 / 2) * double_ulp x < x"
    and "x < (of_int k + 1 / 2) * double_ulp x"
  shows "nearest_double x = of_int k * double_ulp x"
  using nearest_double_le_grid [OF assms(1,3)] nearest_double_ge_grid [OF assms(1,2)]
  by simp

lemma largest_draw: "scale_and_shift (1 - 1 / 2 ^ 53) = Fin (101 - 1 / 2 ^ 46)"
proof -
  define x :: real where "x = 100 * (1 - 1 / 2 ^ 53)"
  define y :: real where "y = 100 - 1 / 2 ^ 46"
  have xr: "64 \<le> x" "x < 128" by (simp_all add: x_def)
  have ux: "double_ulp x = 1 / 2 ^ 46" using xr by (rule ulp_binade_6)
  have "nearest_double x = of_int (100 * 2 ^ 46 - 1) * double_ulp x"
  proof (rule nearest_double_near_grid)
    show "x \<noteq> 0" using xr by simp
    show "(of_int (100 * 2 ^ 46 - 1) - 1 / 2) * double_ulp x < x"
      unfolding ux by (simp add: x_def)
    show "x < (of_int (100 * 2 ^ 46 - 1) + 1 / 2) * double_ulp x"
      unfolding ux by (simp add: x_def)
  qed
  then have nx: "nearest_double x = y"
    unfolding ux by (simp add: y_def)
  have yr: "0 \<le> y" "y \<le> 128" by (simp_all add: y_def)
  have rx: "round_double x = Fin y"
    using round_double_small [of x] nx yr by simp
  have zr: "64 \<le> y + 1" "y + 1 < 128" by (simp_all add: y_def)
  have uz: "double_ulp (y + 1) = 1 / 2 ^ 46" using zr by (rule ulp_binade_6)
  have nz: "nearest_double (y + 1) = y + 1"
  proof (rule nearest_double_on_grid [where k = "101 * 2 ^ 46 - 1"])
    show "y + 1 \<noteq> 0" using zr by simp
    show "y + 1 = of_int (101 * 2 ^ 46 - 1) * double_ulp (y + 1)"
      unfolding uz by (simp add: y_def)
  qed
  have rz: "round_double (y + 1) = Fin (y + 1)"
    using round_double_small [of "y + 1"] nz zr by simp
  have "scale_and_shift (1 - 1 / 2 ^ 53) = Fin (y + 1)"
    using rx rz by (simp only: scale_and_shift_def x_def [symmetric] pyfloat.case)
  then show ?thesis by (simp add: y_def)
qed

lemma is_double_zero: "is_double 0"
  by (simp add: is_double_def round_double_def nearest_double_def)

lemma is_double_largest_draw: "is_double (1 - 1 / 2 ^ 53)"
proof -
  define r :: real where "r = 1 - 1 / 2 ^ 53"
  have rr: "0 < r" "r < 1" "1 / 2 \<le> r" by (simp_all add: r_def)
  have "double_exponent r = - 1"
  proof (rule double_exponent_eq)
    show "(2::real) powr of_int (- 1) \<le> r" using rr by (simp add: powr_minus)
    show "r < (2::real) powr of_int (- 1 + 1)" using rr by simp
  qed simp
  then have "double_ulp r = (2::real) powr (- 53)"
    by (simp add: double_ulp_def)
  also have "\<dots> = 1 / 2 ^ 53"
    by (simp add: powr_minus inverse_eq_divide)
  finally have u: "double_ulp r = 1 / 2 ^ 53" .
  have "nearest_double r = r"
  proof (rule nearest_double_on_grid [where k = "2 ^ 53 - 1"])
    show "r \<noteq> 0" using rr by simp
    show "r = of_int (2 ^ 53 - 1) * double_ulp r"
      unfolding u by (simp add: r_def)
  qed
  then have "round_double r = Fin r"
    using round_double_small [of r] rr by simp
  then show ?thesis by (simp only: is_double_def r_def)
qed

subsection \<open>The Data Generator\<close>

lemma data_generator_ok:
  "0 \<le> n \<Longrightarrow> data_generator rnd n = Inr (map (\<lambda>i. scale_and_shift (rnd i)) [0..<nat n])"
  by (simp add: data_generator_def np_random_random_def comp_def)

lemma in_range_positive: "in_range 1 101 v \<Longrightarrow> strictly_positive v"
  by (cases v) (simp_all add: in_range_def)

lemma generated_sample_set:
  assumes "\<forall>i. is_double (rnd i) \<and> 0 \<le> rnd i \<and> rnd i < 1"
  shows "\<exists>xs. data_generator rnd 1000000 = Inr xs \<and> length xs = 1000000 \<and>
              xs = map (\<lambda>i. scale_and_shift (rnd i)) [0..<1000000] \<and>
              list_all (in_range 1 101) xs"
proof -
  have gen: "data_generator rnd 1000000 =
      Inr (map (\<lambda>i. scale_and_shift (rnd i)) [0..<1000000])"
    using data_generator_ok [of 1000000 rnd] by simp
  have len: "length (map (\<lambda>i. scale_and_shift (rnd i)) [0..<1000000]) = 1000000"
    by simp
  have "in_range 1 101 (scale_and_shift (rnd i))" for i
    using assms by (intro scale_and_shift_in_range) simp_all
  then have rng: "list_all (in_range 1 101) (map (\<lambda>i. scale_and_shift (rnd i)) [0..<1000000])"
    by (simp add: list_all_iff)
  from gen len rng show ?thesis by blast
qed

text \<open>
  C4. The Data Generator, called with the count 1000000, returns a sequence of exactly
  1000000 floats, the i-th one computed from the i-th draw by a rounded product and a
  rounded sum, every one of them in [1, 101), given that \<^verbatim>\<open>np.random.random\<close> draws
  doubles from [0, 1).
\<close>

theorem data_generator_range:
  assumes "\<forall>i. is_double (rnd i) \<and> 0 \<le> rnd i \<and> rnd i < 1"
  shows "\<exists>xs. data_generator rnd 1000000 = Inr xs \<and> length xs = 1000000 \<and>
              xs = map (\<lambda>i. scale_and_shift (rnd i)) [0..<1000000] \<and>
              list_all (in_range 1 101) xs"
  using assms by (rule generated_sample_set)

theorem data_generator_range_witness:
  "\<exists>xs. data_generator (\<lambda>i. 1 - 1 / 2 ^ 53) 1000000 = Inr xs \<and> length xs = 1000000 \<and>
        xs = map (\<lambda>i. Fin (101 - 1 / 2 ^ 46)) [0..<1000000] \<and>
        list_all (in_range 1 101) xs"
proof -
  have "\<forall>i::nat. is_double (1 - 1 / 2 ^ 53) \<and> (0::real) \<le> 1 - 1 / 2 ^ 53 \<and>
      (1::real) - 1 / 2 ^ 53 < 1"
    using is_double_largest_draw by simp
  then have "\<exists>xs. data_generator (\<lambda>i. 1 - 1 / 2 ^ 53) 1000000 = Inr xs \<and>
      length xs = 1000000 \<and>
      xs = map (\<lambda>i. scale_and_shift (1 - 1 / 2 ^ 53)) [0..<1000000] \<and>
      list_all (in_range 1 101) xs"
    by (rule data_generator_range)
  then show ?thesis by (simp only: largest_draw)
qed

subsection \<open>The whole script and its Duration Record\<close>

lemma for_loop_strategy_completes:
  assumes "for_loop_strategy s = Inr s'" and "x \<in> set (l1 s)"
  shows "lg10 x = Inr (log10_value x)"
proof -
  have "for_loop_body (start_timer s) \<noteq> Inl failure" for failure
    using assms(1) by (auto simp: for_loop_strategy_def timed_def)
  then obtain s1 where "for_loop (l1 s) (start_timer s) = Inr s1"
    unfolding for_loop_body_def start_timer_simp
    by (cases "for_loop (l1 s) (start_timer s)") (auto simp: start_timer_simp)
  then show ?thesis
    using assms(2) by (rule for_loop_completes)
qed

lemma timed_cells_chain:
  assumes ok: "\<And>x. x \<in> set (l1 s) \<Longrightarrow> lg10 x = Inr (log10_value x)"
  shows "\<exists>s1 s2 s3 s4 s5.
           for_loop_strategy s = Inr s1 \<and>
           t1 s1 = Some (clock s (ticks s)) \<and> t2 s1 = Some (clock s (ticks s + 1)) \<and>
           speed s1 = speed s @ [clock s (ticks s + 1) - clock s (ticks s)] \<and>
           l2 s1 = l2 s @ map log10_value (l1 s) \<and>
           comprehension_strategy s1 = Inr s2 \<and>
           t1 s2 = Some (clock s (ticks s + 2)) \<and> t2 s2 = Some (clock s (ticks s + 3)) \<and>
           speed s2 = speed s1 @ [clock s (ticks s + 3) - clock s (ticks s + 2)] \<and>
           l2 s2 = map (\<lambda>i. Fin (log 10 (of_int i))) [1..1000000] \<and>
           map_strategy s2 = Inr s3 \<and>
           t1 s3 = Some (clock s (ticks s + 4)) \<and> t2 s3 = Some (clock s (ticks s + 5)) \<and>
           speed s3 = speed s2 @ [clock s (ticks s + 5) - clock s (ticks s + 4)] \<and>
           l2 s3 = map log10_value (l1 s) \<and>
           numpy_strategy s3 = Inr s4 \<and>
           t1 s4 = Some (clock s (ticks s + 6)) \<and> t2 s4 = Some (clock s (ticks s + 7)) \<and>
           speed s4 = speed s3 @ [clock s (ticks s + 7) - clock s (ticks s + 6)] \<and>
           a2 s4 = Some (map np_log10 (a1 s)) \<and>
           list_a2 s4 = Inr s5 \<and> timed_cells s = Inr s5 \<and> speed s5 = speed s4 \<and>
           printed s5 = printed s @
             [(for_loop_message, clock s (ticks s + 1) - clock s (ticks s)),
              (comprehension_message, clock s (ticks s + 3) - clock s (ticks s + 2)),
              (map_message, clock s (ticks s + 5) - clock s (ticks s + 4)),
              (numpy_message, clock s (ticks s + 7) - clock s (ticks s + 6))]"
proof -
  obtain s1 where r1: "for_loop_strategy s = Inr s1"
    and f1: "speed s1 = speed s @ [clock s (ticks s + 1) - clock s (ticks s)]"
      "l1 s1 = l1 s" "a1 s1 = a1 s" "clock s1 = clock s" "ticks s1 = ticks s + 2"
      "t1 s1 = Some (clock s (ticks s))" "t2 s1 = Some (clock s (ticks s + 1))"
      "l2 s1 = l2 s @ map log10_value (l1 s)"
      "printed s1 = printed s @
         [(for_loop_message, clock s (ticks s + 1) - clock s (ticks s))]"
    using for_loop_strategy_ok [OF ok] by simp
  obtain s2 where r2: "comprehension_strategy s1 = Inr s2"
    and f2: "speed s2 = speed s1 @ [clock s1 (ticks s1 + 1) - clock s1 (ticks s1)]"
      "l1 s2 = l1 s1" "a1 s2 = a1 s1" "clock s2 = clock s1" "ticks s2 = ticks s1 + 2"
      "t1 s2 = Some (clock s1 (ticks s1))" "t2 s2 = Some (clock s1 (ticks s1 + 1))"
      "l2 s2 = map (\<lambda>i. Fin (log 10 (of_int i))) [1..1000000]"
      "printed s2 = printed s1 @
         [(comprehension_message, clock s1 (ticks s1 + 1) - clock s1 (ticks s1))]"
    using comprehension_strategy_ok [of s1] by simp
  have ok2: "\<And>x. x \<in> set (l1 s2) \<Longrightarrow> lg10 x = Inr (log10_value x)"
    using ok f1 f2 by simp
  obtain s3 where r3: "map_strategy s2 = Inr s3"
    and f3: "speed s3 = speed s2 @ [clock s2 (ticks s2 + 1) - clock s2 (ticks s2)]"
      "l1 s3 = l1 s2" "a1 s3 = a1 s2" "clock s3 = clock s2" "ticks s3 = ticks s2 + 2"
      "t1 s3 = Some (clock s2 (ticks s2))" "t2 s3 = Some (clock s2 (ticks s2 + 1))"
      "l2 s3 = map log10_value (l1 s2)"
      "printed s3 = printed s2 @
         [(map_message, clock s2 (ticks s2 + 1) - clock s2 (ticks s2))]"
    using map_strategy_ok [OF ok2] by simp
  obtain s4 where r4: "numpy_strategy s3 = Inr s4"
    and f4: "speed s4 = speed s3 @ [clock s3 (ticks s3 + 1) - clock s3 (ticks s3)]"
      "l1 s4 = l1 s3" "l2 s4 = l2 s3" "a2 s4 = Some (map np_log10 (a1 s3))"
      "t1 s4 = Some (clock s3 (ticks s3))" "t2 s4 = Some (clock s3 (ticks s3 + 1))"
      "printed s4 = printed s3 @
         [(numpy_message, clock s3 (ticks s3 + 1) - clock s3 (ticks s3))]"
    using numpy_strategy_ok [of s3] by simp
  have r5: "list_a2 s4 = Inr (s4\<lparr>l3 := a2 s4\<rparr>)"
    using f4 by (simp add: list_a2_def)
  have run: "timed_cells s = Inr (s4\<lparr>l3 := a2 s4\<rparr>)"
    by (simp add: timed_cells_def then_run_def r1 r2 r3 r4 r5)
  have n2: "ticks s + 2 + 1 = ticks s + 3" and n4: "ticks s + 2 + 2 = ticks s + 4"
    and n5: "ticks s + 4 + 1 = ticks s + 5" and n6: "ticks s + 4 + 2 = ticks s + 6"
    and n7: "ticks s + 6 + 1 = ticks s + 7"
    by simp_all
  have c2: "t1 s2 = Some (clock s (ticks s + 2))" "t2 s2 = Some (clock s (ticks s + 3))"
      "speed s2 = speed s1 @ [clock s (ticks s + 3) - clock s (ticks s + 2)]"
      "ticks s2 = ticks s + 4" "clock s2 = clock s"
    using f1 f2 by (simp_all only: n2 n4)
  have c3: "t1 s3 = Some (clock s (ticks s + 4))" "t2 s3 = Some (clock s (ticks s + 5))"
      "speed s3 = speed s2 @ [clock s (ticks s + 5) - clock s (ticks s + 4)]"
      "ticks s3 = ticks s + 6" "clock s3 = clock s" "l2 s3 = map log10_value (l1 s)"
    using f3 c2 f1 f2 by (simp_all only: n5 n6)
  have c4: "t1 s4 = Some (clock s (ticks s + 6))" "t2 s4 = Some (clock s (ticks s + 7))"
      "speed s4 = speed s3 @ [clock s (ticks s + 7) - clock s (ticks s + 6)]"
      "a2 s4 = Some (map np_log10 (a1 s))"
    using f4 c3 f3 f2 f1 by (simp_all only: n7)
  have p2: "printed s2 = printed s1 @
      [(comprehension_message, clock s (ticks s + 3) - clock s (ticks s + 2))]"
    using f2(9) f1(4,5) by (simp only: n2)
  have p3: "printed s3 = printed s2 @
      [(map_message, clock s (ticks s + 5) - clock s (ticks s + 4))]"
    using f3(9) c2(4,5) by (simp only: n5)
  have p4: "printed s4 = printed s3 @
      [(numpy_message, clock s (ticks s + 7) - clock s (ticks s + 6))]"
    using f4(7) c3(4,5) by (simp only: n7)
  have "printed (s4\<lparr>l3 := a2 s4\<rparr>) = printed s4" by simp
  also have "\<dots> = (((printed s @
             [(for_loop_message, clock s (ticks s + 1) - clock s (ticks s))]) @
             [(comprehension_message, clock s (ticks s + 3) - clock s (ticks s + 2))]) @
             [(map_message, clock s (ticks s + 5) - clock s (ticks s + 4))]) @
             [(numpy_message, clock s (ticks s + 7) - clock s (ticks s + 6))]"
    by (simp only: p4 p3 p2 f1(9))
  also have "\<dots> = printed s @
             [(for_loop_message, clock s (ticks s + 1) - clock s (ticks s)),
              (comprehension_message, clock s (ticks s + 3) - clock s (ticks s + 2)),
              (map_message, clock s (ticks s + 5) - clock s (ticks s + 4)),
              (numpy_message, clock s (ticks s + 7) - clock s (ticks s + 6))]"
    by (simp only: append_assoc append.simps)
  finally have p: "printed (s4\<lparr>l3 := a2 s4\<rparr>) = printed s @
             [(for_loop_message, clock s (ticks s + 1) - clock s (ticks s)),
              (comprehension_message, clock s (ticks s + 3) - clock s (ticks s + 2)),
              (map_message, clock s (ticks s + 5) - clock s (ticks s + 4)),
              (numpy_message, clock s (ticks s + 7) - clock s (ticks s + 6))]" .
  have sp: "speed (s4\<lparr>l3 := a2 s4\<rparr>) = speed s4" by simp
  from r1 f1(6,7,1,8) r2 c2(1,2,3) f2(8) r3 c3(1,2,3,6) r4 c4 r5 run sp p
  show ?thesis by blast
qed

lemma timed_cells_completes:
  assumes "timed_cells s = Inr s'" and "x \<in> set (l1 s)"
  shows "lg10 x = Inr (log10_value x)"
proof -
  obtain s1 where "for_loop_strategy s = Inr s1"
    using assms(1)
    by (cases "for_loop_strategy s") (simp_all add: timed_cells_def then_run_def)
  then show ?thesis using assms(2) by (rule for_loop_strategy_completes)
qed

lemma script_completes:
  assumes "\<forall>i. is_double (rnd i) \<and> 0 \<le> rnd i \<and> rnd i < 1"
  shows "\<exists>s. script rnd clk = Inr s"
proof -
  obtain xs where gen: "data_generator rnd 1000000 = Inr xs"
    and rng: "list_all (in_range 1 101) xs"
    using generated_sample_set [OF assms] by blast
  have "lg10 x = Inr (log10_value x)" if "x \<in> set (l1 (state_of clk 1000000 xs))" for x
  proof -
    have "in_range 1 101 x" using that rng by (simp add: state_of_def list_all_iff)
    then show ?thesis by (simp add: in_range_positive lg10_positive)
  qed
  then obtain s' where "timed_cells (state_of clk 1000000 xs) = Inr s'"
    using timed_cells_chain [of "state_of clk 1000000 xs"] by blast
  then show ?thesis by (simp add: script_def startup_def gen)
qed

text \<open>
  C7. After the full script has run, the Duration Record \<open>speed\<close> holds exactly four
  measurements, one per strategy in execution order: the script is the for-loop
  strategy, then the comprehension, then the map, then the NumPy strategy, each run from
  the state the one before left; each takes its own start and end reading, leaves its
  own Result Set, and appends the difference of its two readings to \<open>speed\<close>. The four
  duration lines are printed in the same order, each with the format string of its
  strategy and the value that strategy appended. If each end reading is not earlier than
  its start reading, every recorded duration is non-negative.
\<close>

theorem duration_record_four:
  assumes "script rnd clk = Inr s"
  shows "duration_record (script rnd clk) =
           Some [clk 1 - clk 0, clk 3 - clk 2, clk 5 - clk 4, clk 7 - clk 6] \<and>
         length (speed s) = 4 \<and>
         (clk 0 \<le> clk 1 \<and> clk 2 \<le> clk 3 \<and> clk 4 \<le> clk 5 \<and> clk 6 \<le> clk 7 \<longrightarrow>
            list_all (\<lambda>d. 0 \<le> d) (speed s)) \<and>
         printed s =
           [(for_loop_message, clk 1 - clk 0), (comprehension_message, clk 3 - clk 2),
            (map_message, clk 5 - clk 4), (numpy_message, clk 7 - clk 6)] \<and>
         speed s = map snd (printed s) \<and>
         (\<exists>xs s1 s2 s3 s4.
            data_generator rnd 1000000 = Inr xs \<and>
            for_loop_strategy (state_of clk 1000000 xs) = Inr s1 \<and>
            t1 s1 = Some (clk 0) \<and> t2 s1 = Some (clk 1) \<and>
            speed s1 = [clk 1 - clk 0] \<and> l2 s1 = map log10_value xs \<and>
            comprehension_strategy s1 = Inr s2 \<and>
            t1 s2 = Some (clk 2) \<and> t2 s2 = Some (clk 3) \<and>
            speed s2 = speed s1 @ [clk 3 - clk 2] \<and>
            l2 s2 = map (\<lambda>i. Fin (log 10 (of_int i))) [1..1000000] \<and>
            map_strategy s2 = Inr s3 \<and>
            t1 s3 = Some (clk 4) \<and> t2 s3 = Some (clk 5) \<and>
            speed s3 = speed s2 @ [clk 5 - clk 4] \<and> l2 s3 = map log10_value xs \<and>
            numpy_strategy s3 = Inr s4 \<and>
            t1 s4 = Some (clk 6) \<and> t2 s4 = Some (clk 7) \<and>
            speed s4 = speed s3 @ [clk 7 - clk 6] \<and> a2 s4 = Some (map np_log10 xs) \<and>
            list_a2 s4 = Inr s \<and> speed s = speed s4)"
proof -
  obtain xs where gen: "data_generator rnd 1000000 = Inr xs"
    using assms by (cases "data_generator rnd 1000000") (simp_all add: script_def startup_def)
  define s0 where "s0 = state_of clk 1000000 xs"
  have cells: "timed_cells s0 = Inr s"
    using assms gen unfolding s0_def
    by (cases "timed_cells (state_of clk 1000000 xs)")
       (auto simp: script_def startup_def)
  have s0: "speed s0 = []" "l1 s0 = xs" "a1 s0 = xs" "l2 s0 = []" "printed s0 = []"
      "clock s0 = clk" "ticks s0 = 0"
    by (simp_all add: s0_def state_of_def)
  have "\<And>x. x \<in> set (l1 s0) \<Longrightarrow> lg10 x = Inr (log10_value x)"
    using cells by (rule timed_cells_completes)
  then obtain s1 s2 s3 s4 s5 where
    r1: "for_loop_strategy s0 = Inr s1"
      "t1 s1 = Some (clock s0 (ticks s0))" "t2 s1 = Some (clock s0 (ticks s0 + 1))"
      "speed s1 = speed s0 @ [clock s0 (ticks s0 + 1) - clock s0 (ticks s0)]"
      "l2 s1 = l2 s0 @ map log10_value (l1 s0)"
    and r2: "comprehension_strategy s1 = Inr s2"
      "t1 s2 = Some (clock s0 (ticks s0 + 2))" "t2 s2 = Some (clock s0 (ticks s0 + 3))"
      "speed s2 = speed s1 @ [clock s0 (ticks s0 + 3) - clock s0 (ticks s0 + 2)]"
      "l2 s2 = map (\<lambda>i. Fin (log 10 (of_int i))) [1..1000000]"
    and r3: "map_strategy s2 = Inr s3"
      "t1 s3 = Some (clock s0 (ticks s0 + 4))" "t2 s3 = Some (clock s0 (ticks s0 + 5))"
      "speed s3 = speed s2 @ [clock s0 (ticks s0 + 5) - clock s0 (ticks s0 + 4)]"
      "l2 s3 = map log10_value (l1 s0)"
    and r4: "numpy_strategy s3 = Inr s4"
      "t1 s4 = Some (clock s0 (ticks s0 + 6))" "t2 s4 = Some (clock s0 (ticks s0 + 7))"
      "speed s4 = speed s3 @ [clock s0 (ticks s0 + 7) - clock s0 (ticks s0 + 6)]"
      "a2 s4 = Some (map np_log10 (a1 s0))"
    and r5: "list_a2 s4 = Inr s5" "timed_cells s0 = Inr s5" "speed s5 = speed s4"
      "printed s5 = printed s0 @
             [(for_loop_message, clock s0 (ticks s0 + 1) - clock s0 (ticks s0)),
              (comprehension_message, clock s0 (ticks s0 + 3) - clock s0 (ticks s0 + 2)),
              (map_message, clock s0 (ticks s0 + 5) - clock s0 (ticks s0 + 4)),
              (numpy_message, clock s0 (ticks s0 + 7) - clock s0 (ticks s0 + 6))]"
    using timed_cells_chain [of s0] by blast
  have same: "s5 = s" using r5(2) cells by simp
  have z: "(0::nat) + 1 = 1" "(0::nat) + 2 = 2" "(0::nat) + 3 = 3" "(0::nat) + 4 = 4"
      "(0::nat) + 5 = 5" "(0::nat) + 6 = 6" "(0::nat) + 7 = 7"
    by simp_all
  have q1: "t1 s1 = Some (clk 0)" "t2 s1 = Some (clk 1)" "speed s1 = [clk 1 - clk 0]"
      "l2 s1 = map log10_value xs"
    using r1(2-5) by (simp_all only: s0 z append_Nil)
  have q2: "t1 s2 = Some (clk 2)" "t2 s2 = Some (clk 3)"
      "speed s2 = speed s1 @ [clk 3 - clk 2]"
    using r2(2-4) by (simp_all only: s0 z)
  have q3: "t1 s3 = Some (clk 4)" "t2 s3 = Some (clk 5)"
      "speed s3 = speed s2 @ [clk 5 - clk 4]" "l2 s3 = map log10_value xs"
    using r3(2-5) by (simp_all only: s0 z)
  have q4: "t1 s4 = Some (clk 6)" "t2 s4 = Some (clk 7)"
      "speed s4 = speed s3 @ [clk 7 - clk 6]" "a2 s4 = Some (map np_log10 xs)"
    using r4(2-5) by (simp_all only: s0 z)
  have sp: "speed s = [clk 1 - clk 0, clk 3 - clk 2, clk 5 - clk 4, clk 7 - clk 6]"
    using r5(3) same q1(3) q2(3) q3(3) q4(3) by simp
  have pr: "printed s =
           [(for_loop_message, clk 1 - clk 0), (comprehension_message, clk 3 - clk 2),
            (map_message, clk 5 - clk 4), (numpy_message, clk 7 - clk 6)]"
    using r5(4) same by (simp only: s0 z append_Nil)
  have a: "duration_record (script rnd clk) =
           Some [clk 1 - clk 0, clk 3 - clk 2, clk 5 - clk 4, clk 7 - clk 6]"
    using assms sp by (simp add: duration_record_def)
  have b: "length (speed s) = 4" using sp by simp
  have c: "clk 0 \<le> clk 1 \<and> clk 2 \<le> clk 3 \<and> clk 4 \<le> clk 5 \<and> clk 6 \<le> clk 7 \<longrightarrow>
            list_all (\<lambda>d. 0 \<le> d) (speed s)"
    using sp by simp
  have d: "speed s = map snd (printed s)" using sp pr by simp
  have chain: "\<exists>xs s1 s2 s3 s4.
            data_generator rnd 1000000 = Inr xs \<and>
            for_loop_strategy (state_of clk 1000000 xs) = Inr s1 \<and>
            t1 s1 = Some (clk 0) \<and> t2 s1 = Some (clk 1) \<and>
            speed s1 = [clk 1 - clk 0] \<and> l2 s1 = map log10_value xs \<and>
            comprehension_strategy s1 = Inr s2 \<and>
            t1 s2 = Some (clk 2) \<and> t2 s2 = Some (clk 3) \<and>
            speed s2 = speed s1 @ [clk 3 - clk 2] \<and>
            l2 s2 = map (\<lambda>i. Fin (log 10 (of_int i))) [1..1000000] \<and>
            map_strategy s2 = Inr s3 \<and>
            t1 s3 = Some (clk 4) \<and> t2 s3 = Some (clk 5) \<and>
            speed s3 = speed s2 @ [clk 5 - clk 4] \<and> l2 s3 = map log10_value xs \<and>
            numpy_strategy s3 = Inr s4 \<and>
            t1 s4 = Some (clk 6) \<and> t2 s4 = Some (clk 7) \<and>
            speed s4 = speed s3 @ [clk 7 - clk 6] \<and> a2 s4 = Some (map np_log10 xs) \<and>
            list_a2 s4 = Inr s \<and> speed s = speed s4"
    using gen r1(1) q1 r2(1) q2 r2(5) r3(1) q3 r4(1) q4 r5(1) r5(3) same
    unfolding s0_def by blast
  from a b c pr d chain show ?thesis by (intro conjI)
qed

theorem duration_record_four_witness:
  "duration_record (script (\<lambda>i. 0) real) = Some [1, 1, 1, 1]"
proof -
  have "\<forall>i::nat. is_double 0 \<and> (0::real) \<le> 0 \<and> (0::real) < 1"
    using is_double_zero by simp
  then obtain s where "script (\<lambda>i. 0) real = Inr s"
    using script_completes [of "\<lambda>i. 0" real] by blast
  then show ?thesis
    using duration_record_four [of "\<lambda>i. 0" real s] by simp
qed

subsection \<open>Non-positive inputs\<close>

lemma lg10_Inl: "lg10 x = Inl e \<Longrightarrow> e = ValueError_math_domain"
  by (cases x) (auto split: if_splits)

lemma for_loop_raises:
  "\<exists>x\<in>set xs. non_positive x \<Longrightarrow> raised (for_loop xs s) = Some ValueError_math_domain"
proof (induction xs arbitrary: s)
  case Nil
  then show ?case by simp
next
  case (Cons y ys)
  show ?case
  proof (cases "lg10 y")
    case (Inl e)
    then show ?thesis by (simp add: raised_def lg10_Inl)
  next
    case (Inr v)
    then have "\<not> non_positive y" using lg10_non_positive [of y] by auto
    then have "\<exists>x\<in>set ys. non_positive x" using Cons.prems by simp
    then show ?thesis using Inr by (simp add: Cons.IH)
  qed
qed

lemma map_raising_raises:
  "\<exists>x\<in>set xs. non_positive x \<Longrightarrow> map_raising lg10 xs = Inl ValueError_math_domain"
proof (induction xs)
  case Nil
  then show ?case by simp
next
  case (Cons y ys)
  show ?case
  proof (cases "lg10 y")
    case (Inl e)
    then show ?thesis by (simp add: lg10_Inl)
  next
    case (Inr v)
    then have "\<not> non_positive y" using lg10_non_positive [of y] by auto
    then have "\<exists>x\<in>set ys. non_positive x" using Cons.prems by simp
    then show ?thesis using Inr by (simp add: Cons.IH)
  qed
qed

lemma timed_raised:
  "raised (body (start_timer s)) = Some e \<Longrightarrow>
   raised (timed msg body s) = Some e \<and>
   final_state (timed msg body s) = final_state (body (start_timer s))"
  by (cases "body (start_timer s)") (auto simp: timed_def raised_def)

lemma np_log10_non_positive: "non_positive x \<Longrightarrow> np_log10 x = NInf \<or> np_log10 x = NaN"
  by (cases x) simp_all

text \<open>
  C3, as the code has it. For every Sample Set with at least one non-positive value
  (and \<open>a1\<close> the array made from it), the for-loop strategy and the map strategy fail
  with the arithmetic-domain error of \<^verbatim>\<open>math.log10\<close>, which reaches the caller with no
  duration recorded. The NumPy strategy does not fail: it completes with the array of
  \<^verbatim>\<open>np.log10\<close> values, which is minus infinity or NaN at every non-positive element.
  The counterexample after the witness shows the NumPy strategy completing on a Sample
  Set with a zero and a negative value.
\<close>

theorem domain_error_by_strategy:
  assumes "\<exists>x\<in>set (l1 s). non_positive x" and "a1 s = l1 s"
  shows "raised (for_loop_strategy s) = Some ValueError_math_domain \<and>
         speed (final_state (for_loop_strategy s)) = speed s \<and>
         raised (map_strategy s) = Some ValueError_math_domain \<and>
         speed (final_state (map_strategy s)) = speed s \<and>
         raised (numpy_strategy s) = None \<and>
         a2_result (numpy_strategy s) = Some (map np_log10 (l1 s)) \<and>
         list_all (\<lambda>v. v = NInf \<or> v = NaN) (map np_log10 (filter non_positive (l1 s)))"
proof -
  have bad: "\<exists>x\<in>set (l1 (start_timer s)). non_positive x"
    using assms(1) by (simp add: start_timer_simp)
  have "raised (for_loop_body (start_timer s)) = Some ValueError_math_domain"
    unfolding for_loop_body_def using bad by (rule for_loop_raises)
  then have f: "raised (for_loop_strategy s) = Some ValueError_math_domain"
    and f': "final_state (for_loop_strategy s) = final_state (for_loop_body (start_timer s))"
    unfolding for_loop_strategy_def using timed_raised by blast+
  have fs: "speed (final_state (for_loop_strategy s)) = speed s"
    using body_frame [of for_loop_body "start_timer s"] f' by (simp add: start_timer_simp)
  have mb: "map_body (start_timer s) = Inl (ValueError_math_domain, start_timer s)"
    using map_raising_raises [OF bad] by (simp add: map_body_def op1_def [abs_def])
  then have "raised (map_body (start_timer s)) = Some ValueError_math_domain"
    by (simp add: raised_def)
  then have m: "raised (map_strategy s) = Some ValueError_math_domain"
    and m': "final_state (map_strategy s) = final_state (map_body (start_timer s))"
    unfolding map_strategy_def using timed_raised by blast+
  have ms: "speed (final_state (map_strategy s)) = speed s"
    using m' mb by (simp add: final_state_def start_timer_simp)
  have n: "raised (numpy_strategy s) = None"
    and na: "a2_result (numpy_strategy s) = Some (map np_log10 (l1 s))"
    using assms(2) by (simp_all add: numpy_strategy_ok raised_def a2_result_def)
  have s: "list_all (\<lambda>v. v = NInf \<or> v = NaN) (map np_log10 (filter non_positive (l1 s)))"
    by (simp add: list_all_iff np_log10_non_positive)
  from f fs m ms n na s show ?thesis by (intro conjI)
qed

theorem domain_error_by_strategy_witness:
  "raised (for_loop_strategy (state_of real 2 [Fin 0, Fin (- 5)])) = Some ValueError_math_domain \<and>
   raised (map_strategy (state_of real 2 [Fin 0, Fin (- 5)])) = Some ValueError_math_domain \<and>
   a2_result (numpy_strategy (state_of real 2 [Fin 0, Fin (- 5)])) = Some [NInf, NaN]"
proof -
  have "\<exists>x\<in>set (l1 (state_of real 2 [Fin 0, Fin (- 5)])). non_positive x"
    by (simp add: state_of_def)
  moreover have "a1 (state_of real 2 [Fin 0, Fin (- 5)]) = l1 (state_of real 2 [Fin 0, Fin (- 5)])"
    by (simp add: state_of_def)
  ultimately show ?thesis
    using domain_error_by_strategy [of "state_of real 2 [Fin 0, Fin (- 5)]"]
    by (simp add: state_of_def)
qed

theorem numpy_no_domain_error_counterexample:
  "raised (numpy_strategy (state_of real 2 [Fin 0, Fin (- 5)])) \<noteq> Some ValueError_math_domain \<and>
   raised (numpy_strategy (state_of real 2 [Fin 0, Fin (- 5)])) = None \<and>
   a2_result (numpy_strategy (state_of real 2 [Fin 0, Fin (- 5)])) = Some [NInf, NaN]"
  by (simp add: numpy_strategy_ok raised_def a2_result_def state_of_def)

subsection \<open>Running a strategy twice\<close>

lemma positive_logs:
  "list_all strictly_positive xs \<Longrightarrow> x \<in> set xs \<Longrightarrow> lg10 x = Inr (log10_value x)"
  by (simp add: list_all_iff lg10_positive)

lemma log_10_100: "log 10 100 = 2"
proof -
  have "log 10 (10 ^ 2) = real 2"
    by (rule log_pow_cancel) simp_all
  then show ?thesis by simp
qed

lemma for_loop_strategy_positive:
  assumes "list_all strictly_positive (l1 s)"
  shows "\<exists>s'. for_loop_strategy s = Inr s' \<and> l2 s' = l2 s @ map log10_value (l1 s) \<and>
              l1 s' = l1 s"
proof -
  have "for_loop_strategy s =
     Inr (s\<lparr>ticks := Suc (Suc (ticks s)),
            t1 := Some (clock s (ticks s)),
            t2 := Some (clock s (Suc (ticks s))),
            l2 := l2 s @ map log10_value (l1 s),
            item := (if l1 s = [] then item s else Some (last (l1 s))),
            printed := printed s @
              [(for_loop_message, clock s (Suc (ticks s)) - clock s (ticks s))],
            speed := speed s @ [clock s (Suc (ticks s)) - clock s (ticks s)]\<rparr>)"
    by (rule for_loop_strategy_ok) (rule positive_logs [OF assms])
  then show ?thesis by simp
qed

lemma map_strategy_positive:
  assumes "list_all strictly_positive (l1 s)"
  shows "\<exists>s'. map_strategy s = Inr s' \<and> l2 s' = map log10_value (l1 s) \<and> l1 s' = l1 s"
proof -
  have "map_strategy s =
     Inr (s\<lparr>ticks := Suc (Suc (ticks s)),
            t1 := Some (clock s (ticks s)),
            t2 := Some (clock s (Suc (ticks s))),
            l2 := map log10_value (l1 s),
            printed := printed s @
              [(map_message, clock s (Suc (ticks s)) - clock s (ticks s))],
            speed := speed s @ [clock s (Suc (ticks s)) - clock s (ticks s)]\<rparr>)"
    by (rule map_strategy_ok) (rule positive_logs [OF assms])
  then show ?thesis by simp
qed

text \<open>
  C5, as the code has it. For every Sample Set of strictly positive values: run a second
  time, the comprehension, the map and the NumPy strategy leave the same Result Set as
  the first time; the for-loop strategy does so when the cell \<^verbatim>\<open>l2=[]\<close> is run before
  each run, and without that cell its second run leaves the prior \<open>l2\<close> followed by
  two copies of the logarithms; no strategy changes the Sample Set. The counterexample
  after the witness runs the for-loop cell twice on the one-element Sample Set [1.0].
\<close>

theorem rerun_same_result:
  assumes "list_all strictly_positive (l1 s)"
  shows "l2_result (for_loop_strategy (reset_l2 s)) = Some (map log10_value (l1 s)) \<and>
         l2_result (then_run (for_loop_strategy (reset_l2 s))
                      (\<lambda>s'. for_loop_strategy (reset_l2 s'))) = Some (map log10_value (l1 s)) \<and>
         l2_result (then_run (for_loop_strategy s) for_loop_strategy) =
           Some (l2 s @ map log10_value (l1 s) @ map log10_value (l1 s)) \<and>
         l2_result (then_run (comprehension_strategy s) comprehension_strategy) =
           l2_result (comprehension_strategy s) \<and>
         l2_result (comprehension_strategy s) \<noteq> None \<and>
         l2_result (map_strategy s) = Some (map log10_value (l1 s)) \<and>
         l2_result (then_run (map_strategy s) map_strategy) = Some (map log10_value (l1 s)) \<and>
         a2_result (numpy_strategy s) = Some (map np_log10 (a1 s)) \<and>
         a2_result (then_run (numpy_strategy s) numpy_strategy) = Some (map np_log10 (a1 s)) \<and>
         l1 (final_state (then_run (for_loop_strategy s) for_loop_strategy)) = l1 s \<and>
         l1 (final_state (then_run (comprehension_strategy s) comprehension_strategy)) = l1 s \<and>
         l1 (final_state (then_run (map_strategy s) map_strategy)) = l1 s \<and>
         l1 (final_state (then_run (numpy_strategy s) numpy_strategy)) = l1 s"
proof -
  have pr: "list_all strictly_positive (l1 (reset_l2 s))"
    using assms by (simp add: reset_l2_def)
  obtain r1 where fr1: "for_loop_strategy (reset_l2 s) = Inr r1"
    and r1: "l2 r1 = map log10_value (l1 s)" "l1 r1 = l1 s"
    using for_loop_strategy_positive [OF pr] by (auto simp: reset_l2_def)
  have pr1: "list_all strictly_positive (l1 (reset_l2 r1))"
    using assms r1 by (simp add: reset_l2_def)
  obtain r2 where fr2: "for_loop_strategy (reset_l2 r1) = Inr r2"
    and r2: "l2 r2 = map log10_value (l1 s)"
    using for_loop_strategy_positive [OF pr1] r1 by (auto simp: reset_l2_def)
  have c1: "l2_result (for_loop_strategy (reset_l2 s)) = Some (map log10_value (l1 s))"
    using fr1 r1 by (simp add: l2_result_def)
  have c2: "l2_result (then_run (for_loop_strategy (reset_l2 s))
                      (\<lambda>s'. for_loop_strategy (reset_l2 s'))) = Some (map log10_value (l1 s))"
    using fr2 r2 by (simp add: then_run_def fr1 l2_result_def)
  obtain f1 where ff1: "for_loop_strategy s = Inr f1"
    and f1: "l2 f1 = l2 s @ map log10_value (l1 s)" "l1 f1 = l1 s"
    using for_loop_strategy_positive [OF assms] by auto
  have pf1: "list_all strictly_positive (l1 f1)"
    using assms f1 by simp
  obtain f2 where ff2: "for_loop_strategy f1 = Inr f2"
    and f2: "l2 f2 = l2 f1 @ map log10_value (l1 f1)"
    using for_loop_strategy_positive [OF pf1] by auto
  have c3: "l2_result (then_run (for_loop_strategy s) for_loop_strategy) =
           Some (l2 s @ map log10_value (l1 s) @ map log10_value (l1 s))"
    using ff2 f2 f1 by (simp add: then_run_def ff1 l2_result_def)
  have c4: "l2_result (then_run (comprehension_strategy s) comprehension_strategy) =
           l2_result (comprehension_strategy s)"
    by (simp add: then_run_def comprehension_strategy_ok l2_result_def)
  have c5: "l2_result (comprehension_strategy s) \<noteq> None"
    by (simp add: comprehension_strategy_ok l2_result_def)
  obtain m1 where mm1: "map_strategy s = Inr m1"
    and m1: "l2 m1 = map log10_value (l1 s)" "l1 m1 = l1 s"
    using map_strategy_positive [OF assms] by auto
  have pm1: "list_all strictly_positive (l1 m1)"
    using assms m1 by simp
  obtain m2 where mm2: "map_strategy m1 = Inr m2"
    and m2: "l2 m2 = map log10_value (l1 m1)"
    using map_strategy_positive [OF pm1] by auto
  have c6: "l2_result (map_strategy s) = Some (map log10_value (l1 s))"
    using mm1 m1 by (simp add: l2_result_def)
  have c7: "l2_result (then_run (map_strategy s) map_strategy) = Some (map log10_value (l1 s))"
    using mm2 m2 m1 by (simp add: then_run_def mm1 l2_result_def)
  have c8: "a2_result (numpy_strategy s) = Some (map np_log10 (a1 s))"
    by (simp add: numpy_strategy_ok a2_result_def)
  have c9: "a2_result (then_run (numpy_strategy s) numpy_strategy) = Some (map np_log10 (a1 s))"
    by (simp add: then_run_def numpy_strategy_ok a2_result_def)
  have keep: "l1 (final_state (then_run (timed msg body s) (timed msg body))) = l1 s"
    if "body \<in> {for_loop_body, comprehension_body, map_body, numpy_body}" for body msg
    using then_run_l1 [where cell = "timed msg body" and r = "timed msg body s"]
      timed_l1 [OF that]
    by simp
  have c10: "l1 (final_state (then_run (for_loop_strategy s) for_loop_strategy)) = l1 s"
    unfolding for_loop_strategy_def by (rule keep) simp
  have c11: "l1 (final_state (then_run (comprehension_strategy s) comprehension_strategy)) = l1 s"
    unfolding comprehension_strategy_def by (rule keep) simp
  have c12: "l1 (final_state (then_run (map_strategy s) map_strategy)) = l1 s"
    unfolding map_strategy_def by (rule keep) simp
  have c13: "l1 (final_state (then_run (numpy_strategy s) numpy_strategy)) = l1 s"
    unfolding numpy_strategy_def by (rule keep) simp
  from c1 c2 c3 c4 c5 c6 c7 c8 c9 c10 c11 c12 c13 show ?thesis by (intro conjI)
qed

theorem rerun_same_result_witness:
  "l2_result (then_run (for_loop_strategy (reset_l2 (state_of real 2 [Fin 1, Fin 100])))
                (\<lambda>s'. for_loop_strategy (reset_l2 s'))) = Some [Fin 0, Fin 2] \<and>
   l2_result (for_loop_strategy (reset_l2 (state_of real 2 [Fin 1, Fin 100]))) = Some [Fin 0, Fin 2] \<and>
   l2_result (then_run (map_strategy (state_of real 2 [Fin 1, Fin 100])) map_strategy) =
     Some [Fin 0, Fin 2] \<and>
   a2_result (then_run (numpy_strategy (state_of real 2 [Fin 1, Fin 100])) numpy_strategy) =
     Some [Fin 0, Fin 2]"
proof -
  have "list_all strictly_positive (l1 (state_of real 2 [Fin 1, Fin 100]))"
    by (simp add: state_of_def)
  then show ?thesis
    using rerun_same_result [of "state_of real 2 [Fin 1, Fin 100]"]
    by (simp add: state_of_def log_10_100)
qed

theorem for_loop_twice_counterexample:
  "l2_result (for_loop_strategy (state_of real 1 [Fin 1])) = Some [Fin 0] \<and>
   l2_result (then_run (for_loop_strategy (state_of real 1 [Fin 1])) for_loop_strategy) =
     Some [Fin 0, Fin 0]"
  by (simp add: for_loop_strategy_def timed_def for_loop_body_def start_timer_simp
      stop_timer_simp report_duration_def record_duration_def state_of_def then_run_def l2_result_def)

subsection \<open>The four strategies side by side\<close>

lemma three_strategies_agree:
  assumes "list_all strictly_positive (l1 s)" and "a1 s = l1 s" and "l2 s = []"
  shows "l2_result (for_loop_strategy s) = Some (map log10_value (l1 s)) \<and>
         l2_result (map_strategy s) = Some (map log10_value (l1 s)) \<and>
         a2_result (numpy_strategy s) = Some (map log10_value (l1 s))"
proof -
  have f: "l2_result (for_loop_strategy s) = Some (map log10_value (l1 s))"
    using for_loop_strategy_positive [OF assms(1)] assms(3) by (auto simp: l2_result_def)
  have m: "l2_result (map_strategy s) = Some (map log10_value (l1 s))"
    using map_strategy_positive [OF assms(1)] by (auto simp: l2_result_def)
  have "map np_log10 (l1 s) = map log10_value (l1 s)"
    using assms(1) by (simp add: list_all_iff np_log10_positive)
  then have n: "a2_result (numpy_strategy s) = Some (map log10_value (l1 s))"
    using assms(2) by (simp add: numpy_strategy_ok a2_result_def)
  from f m n show ?thesis by (intro conjI)
qed

lemma comprehension_length:
  "map_option length (l2_result (comprehension_strategy s)) = Some 1000000"
  by (simp add: comprehension_strategy_ok l2_result_def)

lemma comprehension_first:
  "map_option hd (l2_result (comprehension_strategy s)) = Some (Fin 0)"
proof -
  have unfold: "[1..1000000] = (1::int) # [1 + 1..1000000]"
    by (rule upto_rec1) simp
  have "hd (map (\<lambda>i. Fin (log 10 (of_int i))) [1..1000000]) = Fin (log 10 (of_int 1))"
    by (simp only: unfold list.map list.sel)
  then have "hd (map (\<lambda>i. Fin (log 10 (of_int i))) [1..1000000]) = Fin 0"
    by (simp only: of_int_1 log_one)
  then show ?thesis
    by (simp add: comprehension_strategy_ok l2_result_def)
qed

text \<open>
  C1. The four strategies on one and the same Sample Set, here [4.0, 100.0] with the
  start-up cells run: the for-loop, the map and the NumPy strategy leave the same
  Result Set, log10(4) and 2; the comprehension, which iterates over
  \<^verbatim>\<open>range(1,1000001)\<close> and not over \<open>l1\<close>, leaves 1000000 values, the first of them 0.
  The Result Sets are therefore not elementwise equal.
\<close>

theorem strategies_on_two_elements:
  "l2_result (for_loop_strategy (state_of real 2 [Fin 4, Fin 100])) =
     Some [Fin (log 10 4), Fin 2] \<and>
   l2_result (map_strategy (state_of real 2 [Fin 4, Fin 100])) =
     Some [Fin (log 10 4), Fin 2] \<and>
   a2_result (numpy_strategy (state_of real 2 [Fin 4, Fin 100])) =
     Some [Fin (log 10 4), Fin 2] \<and>
   map_option length (l2_result (comprehension_strategy (state_of real 2 [Fin 4, Fin 100]))) =
     Some 1000000 \<and>
   map_option hd (l2_result (comprehension_strategy (state_of real 2 [Fin 4, Fin 100]))) =
     Some (Fin 0)"
proof -
  have pos: "list_all strictly_positive (l1 (state_of real 2 [Fin 4, Fin 100]))"
    by (simp add: state_of_def)
  have a: "l2_result (for_loop_strategy (state_of real 2 [Fin 4, Fin 100])) =
     Some [Fin (log 10 4), Fin 2]"
    using for_loop_strategy_positive [OF pos]
    by (auto simp: l2_result_def state_of_def log_10_100)
  have b: "l2_result (map_strategy (state_of real 2 [Fin 4, Fin 100])) =
     Some [Fin (log 10 4), Fin 2]"
    using map_strategy_positive [OF pos]
    by (auto simp: l2_result_def state_of_def log_10_100)
  have c: "a2_result (numpy_strategy (state_of real 2 [Fin 4, Fin 100])) =
     Some [Fin (log 10 4), Fin 2]"
    by (simp add: numpy_strategy_ok a2_result_def state_of_def log_10_100)
  from a b c comprehension_length comprehension_first show ?thesis by (intro conjI)
qed

text \<open>
  C6. The four strategies on the empty Sample Set: each completes and appends one
  elapsed duration; the for-loop, the map and the NumPy strategy leave an empty Result
  Set, the comprehension leaves 1000000 values.
\<close>

theorem strategies_on_empty_sample_set:
  "l2_result (for_loop_strategy (state_of real 0 [])) = Some [] \<and>
   l2_result (map_strategy (state_of real 0 [])) = Some [] \<and>
   a2_result (numpy_strategy (state_of real 0 [])) = Some [] \<and>
   speed (final_state (for_loop_strategy (state_of real 0 []))) = [1] \<and>
   speed (final_state (map_strategy (state_of real 0 []))) = [1] \<and>
   speed (final_state (numpy_strategy (state_of real 0 []))) = [1] \<and>
   speed (final_state (comprehension_strategy (state_of real 0 []))) = [1] \<and>
   map_option length (l2_result (comprehension_strategy (state_of real 0 []))) = Some 1000000"
proof -
  have a: "for_loop_strategy (state_of real 0 []) =
      Inr ((state_of real 0 [])\<lparr>ticks := 2, t1 := Some 0, t2 := Some 1,
             printed := [(for_loop_message, 1)], speed := [1]\<rparr>)"
    by (simp add: for_loop_strategy_def timed_def for_loop_body_def start_timer_simp
        stop_timer_simp report_duration_def record_duration_def then_run_def state_of_def)
  have b: "map_strategy (state_of real 0 []) =
      Inr ((state_of real 0 [])\<lparr>ticks := 2, t1 := Some 0, t2 := Some 1,
             printed := [(map_message, 1)], speed := [1]\<rparr>)"
    by (simp add: map_strategy_def timed_def map_body_def start_timer_simp
        stop_timer_simp report_duration_def record_duration_def then_run_def state_of_def)
  have c: "a2_result (numpy_strategy (state_of real 0 [])) = Some []"
    and d: "speed (final_state (numpy_strategy (state_of real 0 []))) = [1]"
    by (simp_all add: numpy_strategy_ok a2_result_def final_state_def state_of_def)
  have e: "speed (final_state (comprehension_strategy (state_of real 0 []))) = [1]"
    by (simp add: comprehension_strategy_ok final_state_def state_of_def)
  have a1: "l2_result (for_loop_strategy (state_of real 0 [])) = Some []"
    and a2: "speed (final_state (for_loop_strategy (state_of real 0 []))) = [1]"
    using a by (simp_all add: l2_result_def final_state_def state_of_def)
  have b1: "l2_result (map_strategy (state_of real 0 [])) = Some []"
    and b2: "speed (final_state (map_strategy (state_of real 0 []))) = [1]"
    using b by (simp_all add: l2_result_def final_state_def state_of_def)
  from a1 b1 c a2 b2 d e comprehension_length show ?thesis by (intro conjI)
qed

end
